theory Spec2Isabelle
  imports Main "HOL-Library.Sublist" "HOL-Library.AList"
begin

section \<open>RegageMetalls: the record-processing loop of the MITECO downloader\<close>

text \<open>
  The repository holds two copies of the module: \<^verbatim>\<open>src/RegageMetalls.py\<close> and
  \<^verbatim>\<open>src/src/mains/RegageMetalls.py\<close>. They have the same control flow. The second one
  prefixes every log text with a bracketed code (\<^verbatim>\<open>[WARN-02]\<close>, ...), adds two log lines
  (\<^verbatim>\<open>INFO-01\<close> in \<^verbatim>\<open>get_linkMiteco\<close>, \<^verbatim>\<open>INFO-13\<close> after \<^verbatim>\<open>setup_descarga\<close>) and archives
  a record file under \<^verbatim>\<open>trash/<nombre_productor>\<close> instead of \<^verbatim>\<open>trash\<close>. The embedding
  takes the copy as a parameter where the two differ, and names every log line by the
  code the second copy gives it.
\<close>

datatype copia = Raiz | Mains

subsection \<open>Exceptions, log lines and observable effects\<close>

text \<open>
  Only subclasses of \<^verbatim>\<open>Exception\<close> are modelled (the clauses \<^verbatim>\<open>except Exception\<close> of
  the source catch exactly these). In selenium \<^verbatim>\<open>TimeoutException\<close> is a subclass of
  \<^verbatim>\<open>WebDriverException\<close>; the class decides which \<^verbatim>\<open>except\<close> clause of
  \<^verbatim>\<open>procesar_registro\<close> takes the exception. The string is the exception's text.
\<close>

datatype clase_exn = TimeoutException | WebDriverException | OtraException

datatype exn = Exn clase_exn string

datatype nivel = INFO | WARNING | ERROR

datatype arg = ANat nat | AInt int | AStr string | AExn exn | ALista "string list"
  | ARuta "string list"

text \<open>
  The effects the program has on its surroundings, in the order they happen: a log line
  (level, code of the line, the values formatted into it), \<^verbatim>\<open>time.sleep\<close> (in
  milliseconds), and a call of a function of another module (its name and the string
  arguments that matter).
\<close>

datatype event = Log nivel string "arg list" | Sleep nat | Call string "string list"

subsection \<open>\<^verbatim>\<open>get_linkMiteco\<close>\<close>

text \<open>
  The adjacent string literals and f-strings of the source, piece by piece. An f-string
  slot \<^verbatim>\<open>{x}\<close> with a \<^verbatim>\<open>str\<close> value inserts the value itself.
\<close>

definition get_linkMiteco :: "string \<Rightarrow> string \<Rightarrow> string \<Rightarrow> string" where
  "get_linkMiteco regage_val nif_productor nif_representante =
     ''https://sede.miteco.gob.es/portal/site/seMITECO/area_personal''
     @ ''?btnDetalleProc=btnDetalleProc''
     @ ''&pagina=1''
     @ (''&idExpediente='' @ regage_val)
     @ ''&idProcedimiento=736''
     @ ''&idSubOrganoResp=11''
     @ (''&idDocIdentificativo='' @ nif_productor)
     @ (''&idDocRepresentante='' @ nif_representante)
     @ ''&idEstadoSeleccionado=-1''
     @ ''&idTipoProcSeleccionado=EN+REPRESENTACION+(REA)''
     @ (''&regInicial='' @ regage_val)
     @ (''&nifTitular='' @ nif_productor)
     @ ''&numPagSolSelec=10#no-back-button''"

text \<open>
  The number of positions of a text at which a given text starts: what "appears exactly
  n times" counts.
\<close>

fun ocurrencias :: "string \<Rightarrow> string \<Rightarrow> nat" where
  "ocurrencias xs [] = (if xs = [] then 1 else 0)"
| "ocurrencias xs (y # ys) = (if prefix xs (y # ys) then 1 else 0) + ocurrencias xs ys"

subsection \<open>Records read from the JSON files\<close>

text \<open>
  What \<^verbatim>\<open>json.load\<close> returns is a \<^verbatim>\<open>dict\<close> or some other value; only a \<^verbatim>\<open>dict\<close> has
  \<^verbatim>\<open>.get\<close>. Of a value stored under a key the program uses two things: whether it is a
  \<^verbatim>\<open>str\<close> (only a \<^verbatim>\<open>str\<close> has \<^verbatim>\<open>.replace\<close>) and the text an f-string makes of it. So a
  value is a string, or a value of another type carried with its \<^verbatim>\<open>str()\<close> text
  (\<^verbatim>\<open>None\<close>, \<^verbatim>\<open>12\<close>, \<^verbatim>\<open>[1, 2]\<close>, ...). The \<^verbatim>\<open>dict\<close> is an association list read
  with \<open>map_of\<close>.
\<close>

datatype jval = JStr string | JNoStr string

datatype json = JObj "(string \<times> jval) list" | JNoObj

fun py_str :: "jval \<Rightarrow> string" where
  "py_str (JStr s) = s"
| "py_str (JNoStr s) = s"

definition AttributeError :: exn where
  "AttributeError = Exn OtraException ''AttributeError''"

fun dict_get :: "json \<Rightarrow> string \<Rightarrow> jval \<Rightarrow> exn + jval" where
  "dict_get (JObj kvs) k d = Inr (case map_of kvs k of None \<Rightarrow> d | Some v \<Rightarrow> v)"
| "dict_get JNoObj k d = Inl AttributeError"

text \<open>\<^verbatim>\<open>s.replace(old, new)\<close> for a one-character \<^verbatim>\<open>old\<close>: every occurrence is replaced.\<close>

definition replace_char :: "char \<Rightarrow> string \<Rightarrow> string \<Rightarrow> string" where
  "replace_char old new s = concat (map (\<lambda>c. if c = old then new else [c]) s)"

fun str_replace :: "char \<Rightarrow> string \<Rightarrow> jval \<Rightarrow> exn + jval" where
  "str_replace old new (JStr s) = Inr (JStr (replace_char old new s))"
| "str_replace old new (JNoStr s) = Inl AttributeError"

record campos =
  regage :: jval
  nif_productor :: jval
  nif_representante :: jval
  nombre_productor :: jval
  nombre_residuo :: jval

text \<open>
  The first five statements of \<^verbatim>\<open>procesar_registro\<close>, which come before its \<^verbatim>\<open>try\<close>: an
  \<^verbatim>\<open>AttributeError\<close> raised here leaves the function.
\<close>

definition nombre_productor_de :: "json \<Rightarrow> exn + jval" where
  "nombre_productor_de registro =
     (case dict_get registro ''nombre_productor'' (JStr ''desconocido'') of
        Inl e \<Rightarrow> Inl e
      | Inr v \<Rightarrow> str_replace CHR '' '' ''_'' v)"

definition nombre_residuo_de :: "json \<Rightarrow> exn + jval" where
  "nombre_residuo_de registro =
     (case dict_get registro ''nombre_residuo'' (JStr ''desconocido'') of
        Inl e \<Rightarrow> Inl e
      | Inr v \<Rightarrow>
          (case str_replace CHR '' '' ''_'' v of
             Inl e \<Rightarrow> Inl e
           | Inr v' \<Rightarrow> str_replace CHR ''*'' [] v'))"

definition campos_registro :: "json \<Rightarrow> exn + campos" where
  "campos_registro registro =
     (case dict_get registro ''regage'' (JStr []) of Inl e \<Rightarrow> Inl e | Inr rg \<Rightarrow>
      case dict_get registro ''nif_productor'' (JStr []) of Inl e \<Rightarrow> Inl e | Inr np \<Rightarrow>
      case dict_get registro ''nif_representante'' (JStr []) of Inl e \<Rightarrow> Inl e | Inr nr \<Rightarrow>
      case nombre_productor_de registro of Inl e \<Rightarrow> Inl e | Inr nombre_p \<Rightarrow>
      case nombre_residuo_de registro of Inl e \<Rightarrow> Inl e | Inr nombre_r \<Rightarrow>
        Inr \<lparr>regage = rg, nif_productor = np, nif_representante = nr,
             nombre_productor = nombre_p, nombre_residuo = nombre_r\<rparr>)"

subsection \<open>The other modules\<close>

text \<open>
  \<^verbatim>\<open>webConfiguration\<close>, \<^verbatim>\<open>webFunctions\<close>, \<^verbatim>\<open>downloadFunctions\<close>, \<^verbatim>\<open>certHandler\<close>, the selenium
  driver and \<^verbatim>\<open>json.load\<close> are not part of the sources at hand. They are parameters: each
  function acts on a state \<open>'w\<close> of the surroundings (browser, portal, download folders),
  which only these functions read and change, and returns a value or raises. A driver is
  a number; \<^verbatim>\<open>configure\<close> returns a driver or \<^verbatim>\<open>None\<close>. \<^verbatim>\<open>nombre_cert\<close> is
  \<^verbatim>\<open>info.get("NOMBRE_CERT")\<close>. Logging and \<^verbatim>\<open>time.sleep\<close> return normally and are
  recorded as events.
\<close>

record 'w entorno =
  configure :: "'w \<Rightarrow> (exn + nat option) \<times> 'w"
  abrir_web :: "nat \<Rightarrow> string \<Rightarrow> 'w \<Rightarrow> (exn + unit) \<times> 'w"
  esperar_elemento_por_id :: "nat \<Rightarrow> string \<Rightarrow> 'w \<Rightarrow> (exn + unit) \<times> 'w"
  clickar_boton_por_value :: "nat \<Rightarrow> string \<Rightarrow> 'w \<Rightarrow> (exn + unit) \<times> 'w"
  clickar_boton_por_texto :: "nat \<Rightarrow> string \<Rightarrow> 'w \<Rightarrow> (exn + unit) \<times> 'w"
  seleccionar_certificado_chrome :: "string option \<Rightarrow> 'w \<Rightarrow> (exn + unit) \<times> 'w"
  nombre_cert :: "string option"
  setup_descarga :: "nat \<Rightarrow> string \<Rightarrow> string \<Rightarrow> 'w \<Rightarrow> (exn + string) \<times> 'w"
  snapshot_folder_state :: "string \<Rightarrow> 'w \<Rightarrow> (exn + string list) \<times> 'w"
  clickar_todos_los_links :: "nat \<Rightarrow> string \<Rightarrow> 'w \<Rightarrow> (exn + unit) \<times> 'w"
  wait_for_new_download ::
    "string \<Rightarrow> string list \<Rightarrow> nat \<Rightarrow> 'w \<Rightarrow> (exn + string list) \<times> 'w"
  driver_quit :: "nat \<Rightarrow> 'w \<Rightarrow> (exn + unit) \<times> 'w"
  json_load :: "string \<Rightarrow> exn + json"

text \<open>
  A piece of the program: from the state of the surroundings to a value or an exception,
  the new state, and the events it caused, in order.
\<close>

type_synonym ('w, 'a) accion = "'w \<Rightarrow> (exn + 'a) \<times> 'w \<times> event list"

definition llamar ::
  "string \<Rightarrow> string list \<Rightarrow> ('w \<Rightarrow> (exn + 'a) \<times> 'w) \<Rightarrow> ('w, 'a) accion" where
  "llamar nombre args f w = (case f w of (r, w') \<Rightarrow> (r, w', [Call nombre args]))"

definition emitir :: "event list \<Rightarrow> ('w, unit) accion" where
  "emitir evs w = (Inr (), w, evs)"

definition devolver :: "'a \<Rightarrow> ('w, 'a) accion" where
  "devolver x w = (Inr x, w, [])"

text \<open>One statement after another: an exception skips the rest.\<close>

definition luego :: "('w, 'a) accion \<Rightarrow> ('a \<Rightarrow> ('w, 'b) accion) \<Rightarrow> ('w, 'b) accion" where
  "luego m f w =
     (case m w of
        (Inl e, w', evs) \<Rightarrow> (Inl e, w', evs)
      | (Inr x, w', evs) \<Rightarrow> (case f x w' of (r, w'', evs') \<Rightarrow> (r, w'', evs @ evs')))"

subsection \<open>The retry loops\<close>

text \<open>
  The four loops of the source (in \<^verbatim>\<open>autenticar_y_seleccionar_certificado\<close>, and three in
  \<^verbatim>\<open>procesar_registro\<close>) are the same text up to the action tried, the ceiling and the
  three log lines:
  \<^verbatim>\<open>
  for intento in range(1, max_intentos + 1):
      try:
          <action>
          logging.info(... intento ...)
          break
      except Exception as e:
          logging.warning(... intento/max_intentos ... e)
          time.sleep(0.5)
  else:
      logging.error(... max_intentos ...)
      <return None, or raise>
  \<close>
  \<open>reintentar\<close> runs the iterations that are left, \<open>Suc n\<close> of them at attempt number
  \<open>max_intentos - n\<close>. The result is \<open>True\<close> after \<^verbatim>\<open>break\<close> and \<open>False\<close> when the
  \<^verbatim>\<open>else\<close> branch has logged its error; what the \<^verbatim>\<open>else\<close> branch does next is up to the
  caller.
\<close>

record etiquetas =
  et_info :: string
  et_warn :: string
  et_error :: string

primrec reintentar ::
  "etiquetas \<Rightarrow> nat \<Rightarrow> ('w, 'a) accion \<Rightarrow> nat \<Rightarrow> 'w \<Rightarrow> bool \<times> 'w \<times> event list" where
  "reintentar et max_intentos act 0 w =
     (False, w, [Log ERROR (et_error et) [ANat max_intentos]])"
| "reintentar et max_intentos act (Suc n) w =
     (let intento = max_intentos - n in
      case act w of
        (Inr x, w', evs) \<Rightarrow> (True, w', evs @ [Log INFO (et_info et) [ANat intento]])
      | (Inl e, w', evs) \<Rightarrow>
          (case reintentar et max_intentos act n w' of
             (ok, w'', evs') \<Rightarrow>
               (ok, w'',
                evs @ [Log WARNING (et_warn et) [ANat intento, ANat max_intentos, AExn e],
                       Sleep 500] @ evs')))"

definition bucle_reintentos ::
  "etiquetas \<Rightarrow> nat \<Rightarrow> ('w, 'a) accion \<Rightarrow> 'w \<Rightarrow> bool \<times> 'w \<times> event list" where
  "bucle_reintentos et max_intentos act = reintentar et max_intentos act max_intentos"

text \<open>
  To speak about the attempts of a loop: the outcomes of \<open>n\<close> successive runs of an
  action, each from the state the run before has left (the value or exception, and the
  events of the run); the state after these \<open>n\<close> runs; and what the loop writes around
  the runs, numbered from \<open>i\<close>: after a failed one the warning with the attempt number and
  the ceiling and the sleep of 500 ms, after a successful one the info line.
\<close>

primrec resultados :: "('w, 'a) accion \<Rightarrow> nat \<Rightarrow> 'w \<Rightarrow> ((exn + 'a) \<times> event list) list" where
  "resultados act 0 w = []"
| "resultados act (Suc n) w = (case act w of (r, w', evs) \<Rightarrow> (r, evs) # resultados act n w')"

primrec mundo_tras :: "('w, 'a) accion \<Rightarrow> nat \<Rightarrow> 'w \<Rightarrow> 'w" where
  "mundo_tras act 0 w = w"
| "mundo_tras act (Suc n) w = mundo_tras act n (fst (snd (act w)))"

fun traza_intento :: "etiquetas \<Rightarrow> nat \<Rightarrow> nat \<times> (exn + 'a) \<times> event list \<Rightarrow> event list" where
  "traza_intento et N (i, Inl e, evs) =
     evs @ [Log WARNING (et_warn et) [ANat i, ANat N, AExn e], Sleep 500]"
| "traza_intento et N (i, Inr x, evs) = evs @ [Log INFO (et_info et) [ANat i]]"

definition traza_intentos ::
  "etiquetas \<Rightarrow> nat \<Rightarrow> nat \<Rightarrow> ((exn + 'a) \<times> event list) list \<Rightarrow> event list" where
  "traza_intentos et N i rs = concat (map (traza_intento et N) (enumerate i rs))"

subsection \<open>\<^verbatim>\<open>autenticar_y_seleccionar_certificado\<close>\<close>

definition intento_autenticacion :: "'w entorno \<Rightarrow> nat \<Rightarrow> ('w, unit) accion" where
  "intento_autenticacion env driver =
     luego (llamar ''webFunctions.esperar_elemento_por_id'' [''breadcrumb'']
              (esperar_elemento_por_id env driver ''breadcrumb'')) (\<lambda>_.
     luego (llamar ''webFunctions.clickar_boton_por_value'' [''acceder'']
              (clickar_boton_por_value env driver ''acceder'')) (\<lambda>_.
     luego (llamar ''webFunctions.clickar_boton_por_texto''
              [''Acceso DNIe / Certificado electronico'']
              (clickar_boton_por_texto env driver ''Acceso DNIe / Certificado electronico''))
       (\<lambda>_.
     llamar ''certHandler.seleccionar_certificado_chrome'' []
       (seleccionar_certificado_chrome env (nombre_cert env)))))"

definition et_autenticar :: etiquetas where
  "et_autenticar = \<lparr>et_info = ''INFO-02'', et_warn = ''WARN-01'', et_error = ''ERR-01''\<rparr>"

text \<open>The texts with accents are written without them.\<close>

definition autenticar_y_seleccionar_certificado :: "'w entorno \<Rightarrow> nat \<Rightarrow> ('w, unit) accion" where
  "autenticar_y_seleccionar_certificado env driver w =
     (case bucle_reintentos et_autenticar 100 (intento_autenticacion env driver) w of
        (ok, w', evs) \<Rightarrow>
          if ok then (Inr (), w', evs)
          else (Inl (Exn OtraException ''Fallo en la autenticacion tras varios intentos''),
                w', evs))"

subsection \<open>\<^verbatim>\<open>descargar_documentos\<close>\<close>

text \<open>
  \<^verbatim>\<open>driver.quit()\<close> inside its own \<^verbatim>\<open>try\<close>, as it stands in the \<^verbatim>\<open>finally\<close> clauses of
  \<^verbatim>\<open>descargar_documentos\<close> and \<^verbatim>\<open>procesar_registro\<close>.
\<close>

definition cerrar_navegador ::
  "'w entorno \<Rightarrow> nat \<Rightarrow> string \<Rightarrow> arg list \<Rightarrow> string \<Rightarrow> 'w \<Rightarrow> 'w \<times> event list" where
  "cerrar_navegador env driver cod_info args cod_error w =
     (case driver_quit env driver w of
        (Inr u, w') \<Rightarrow> (w', [Call ''driver.quit'' [], Log INFO cod_info args])
      | (Inl e, w') \<Rightarrow> (w', [Call ''driver.quit'' [], Log ERROR cod_error [AExn e]]))"

definition lanzar_y_esperar ::
  "'w entorno \<Rightarrow> nat \<Rightarrow> string \<Rightarrow> string list \<Rightarrow> nat \<Rightarrow> ('w, string list) accion" where
  "lanzar_y_esperar env driver download_path old_state numDownloads =
     luego (llamar ''webFunctions.clickar_todos_los_links'' [''.pdf'']
              (clickar_todos_los_links env driver ''.pdf'')) (\<lambda>_.
     luego (emitir [Log INFO ''INFO-03'' [],
                    Log INFO ''INFO-04'' [ANat numDownloads, AStr download_path]]) (\<lambda>_.
     luego (llamar ''downloadFunctions.wait_for_new_download'' [download_path]
              (wait_for_new_download env download_path old_state numDownloads))
       (\<lambda>archivos_descargados.
     luego (emitir [Log INFO ''INFO-05'' [ALista archivos_descargados]]) (\<lambda>_.
     devolver archivos_descargados))))"

definition descargar_documentos ::
  "'w entorno \<Rightarrow> nat \<Rightarrow> string \<Rightarrow> nat \<Rightarrow> ('w, string list) accion" where
  "descargar_documentos env driver download_path numDownloads w =
     (case llamar ''downloadFunctions.snapshot_folder_state'' [download_path]
             (snapshot_folder_state env download_path) w of
        (Inl e, w0, evs0) \<Rightarrow> (Inl e, w0, evs0)
      | (Inr old_state, w0, evs0) \<Rightarrow>
          (case lanzar_y_esperar env driver download_path old_state numDownloads w0 of
             (r, w1, evs1) \<Rightarrow>
               (case cerrar_navegador env driver ''INFO-06'' [] ''ERR-03'' w1 of
                  (w2, evs2) \<Rightarrow>
                    (case r of
                       Inr archivos_descargados \<Rightarrow>
                         (Inr archivos_descargados, w2, evs0 @ evs1 @ evs2)
                     | Inl e \<Rightarrow>
                         (Inr [], w2,
                          evs0 @ evs1 @ [Log ERROR ''ERR-02'' [AExn e]] @ evs2)))))"

subsection \<open>\<^verbatim>\<open>procesar_registro\<close>\<close>

definition et_abrir :: etiquetas where
  "et_abrir = \<lparr>et_info = ''INFO-10'', et_warn = ''WARN-02'', et_error = ''ERR-05''\<rparr>"

definition et_auth :: etiquetas where
  "et_auth = \<lparr>et_info = ''INFO-11'', et_warn = ''WARN-03'', et_error = ''ERR-06''\<rparr>"

definition et_reabrir :: etiquetas where
  "et_reabrir = \<lparr>et_info = ''INFO-12'', et_warn = ''WARN-04'', et_error = ''ERR-07''\<rparr>"

definition abrir :: "'w entorno \<Rightarrow> nat \<Rightarrow> string \<Rightarrow> ('w, unit) accion" where
  "abrir env driver linkMiteco =
     llamar ''webFunctions.abrir_web'' [linkMiteco] (abrir_web env driver linkMiteco)"

text \<open>
  The body of the \<^verbatim>\<open>try\<close> once the driver exists. Beside the value returned (or the
  exception raised) it gives the value of the variable \<^verbatim>\<open>driver\<close> at that moment, which
  the \<^verbatim>\<open>finally\<close> clause reads: the driver, or \<^verbatim>\<open>None\<close> after
  \<^verbatim>\<open>descargar_documentos\<close> has returned.
\<close>

definition con_navegador ::
  "copia \<Rightarrow> 'w entorno \<Rightarrow> campos \<Rightarrow> string \<Rightarrow> nat \<Rightarrow> 'w \<Rightarrow>
     ((exn + string list option) \<times> nat option) \<times> 'w \<times> event list" where
  "con_navegador cp env c linkMiteco driver w =
     (case bucle_reintentos et_abrir 5000 (abrir env driver linkMiteco) w of
        (ok1, w1, evs1) \<Rightarrow>
     if \<not> ok1 then ((Inr None, Some driver), w1, evs1) else
     (case bucle_reintentos et_auth 5000 (autenticar_y_seleccionar_certificado env driver) w1 of
        (ok2, w2, evs2) \<Rightarrow>
     if \<not> ok2 then ((Inr None, Some driver), w2, evs1 @ evs2) else
     (case bucle_reintentos et_reabrir 5000 (abrir env driver linkMiteco) w2 of
        (ok3, w3, evs3) \<Rightarrow>
     if \<not> ok3 then ((Inr None, Some driver), w3, evs1 @ evs2 @ evs3) else
     (case llamar ''downloadFunctions.setup_descarga''
             [py_str (nombre_productor c), py_str (nombre_residuo c)]
             (setup_descarga env driver (py_str (nombre_productor c))
                (py_str (nombre_residuo c))) w3 of
        (Inl e, w4, evs4) \<Rightarrow> ((Inl e, Some driver), w4, evs1 @ evs2 @ evs3 @ evs4)
      | (Inr download_path, w4, evs4) \<Rightarrow>
     (case descargar_documentos env driver download_path 2 w4 of
        (Inl e, w5, evs5) \<Rightarrow>
          ((Inl e, Some driver), w5,
           evs1 @ evs2 @ evs3 @ evs4
           @ (if cp = Mains then [Log INFO ''INFO-13'' [AStr download_path]] else []) @ evs5)
      | (Inr archivos_descargados, w5, evs5) \<Rightarrow>
          ((Inr (Some archivos_descargados), None), w5,
           evs1 @ evs2 @ evs3 @ evs4
           @ (if cp = Mains then [Log INFO ''INFO-13'' [AStr download_path]] else []) @ evs5
           @ [Log INFO ''INFO-14''
                [AStr (py_str (nombre_residuo c)), AStr (py_str (nombre_productor c))],
              Log INFO ''INFO-15'' [ALista archivos_descargados]]))))))"

text \<open>The body of the \<^verbatim>\<open>try\<close> from its first statement.\<close>

definition cuerpo_registro ::
  "copia \<Rightarrow> 'w entorno \<Rightarrow> campos \<Rightarrow> 'w \<Rightarrow>
     ((exn + string list option) \<times> nat option) \<times> 'w \<times> event list" where
  "cuerpo_registro cp env c w =
     (let linkMiteco = get_linkMiteco (py_str (regage c)) (py_str (nif_productor c))
                         (py_str (nif_representante c));
          evs0 = (if cp = Mains then [Log INFO ''INFO-01'' [AStr linkMiteco]] else [])
                 @ [Log INFO ''INFO-08''
                      [AStr (py_str (nombre_residuo c)), AStr (py_str (nombre_productor c))],
                    Log INFO ''INFO-09'' [AStr linkMiteco]]
      in case llamar ''webConfiguration.configure'' [] (configure env) w of
           (Inl e, w1, evs1) \<Rightarrow> ((Inl e, None), w1, evs0 @ evs1)
         | (Inr None, w1, evs1) \<Rightarrow>
             ((Inr None, None), w1, evs0 @ evs1 @ [Log ERROR ''ERR-04'' []])
         | (Inr (Some driver), w1, evs1) \<Rightarrow>
             (case con_navegador cp env c linkMiteco driver w1 of
                (rd, w2, evs2) \<Rightarrow> (rd, w2, evs0 @ evs1 @ evs2)))"

text \<open>
  The \<^verbatim>\<open>except\<close> clauses in their order: \<^verbatim>\<open>TimeoutException\<close>, \<^verbatim>\<open>WebDriverException\<close>,
  \<^verbatim>\<open>Exception\<close>.
\<close>

fun cod_except :: "exn \<Rightarrow> string" where
  "cod_except (Exn TimeoutException m) = ''ERR-08''"
| "cod_except (Exn WebDriverException m) = ''ERR-09''"
| "cod_except (Exn OtraException m) = ''ERR-10''"

definition ids_registro :: "campos \<Rightarrow> arg list" where
  "ids_registro c = [AStr (py_str (regage c)), AStr (py_str (nif_productor c)),
                     AStr (py_str (nif_representante c))]"

definition procesar_registro ::
  "copia \<Rightarrow> 'w entorno \<Rightarrow> json \<Rightarrow> ('w, string list option) accion" where
  "procesar_registro cp env registro w =
     (case campos_registro registro of
        Inl e \<Rightarrow> (Inl e, w, [])
      | Inr c \<Rightarrow>
          (case cuerpo_registro cp env c w of
             ((r, driver), w1, evs1) \<Rightarrow>
               (case (case driver of
                        None \<Rightarrow> (w1, [])
                      | Some d \<Rightarrow>
                          cerrar_navegador env d ''INFO-16''
                            [AStr (py_str (nombre_residuo c)), AStr (py_str (nombre_productor c))]
                            ''ERR-11'' w1) of
                  (w2, evs2) \<Rightarrow>
                    (case r of
                       Inr archivos \<Rightarrow>
                         (Inr archivos, w2,
                          [Log INFO ''INFO-07'' (ids_registro c)] @ evs1 @ evs2)
                     | Inl e \<Rightarrow>
                         (Inr None, w2,
                          [Log INFO ''INFO-07'' (ids_registro c)] @ evs1
                          @ [Log ERROR (cod_except e) (ids_registro c @ [AExn e])] @ evs2)))))"

subsection \<open>The file system\<close>

text \<open>
  Paths are taken relative to \<^verbatim>\<open>BASE_DIR\<close>, which is the empty path and a directory. A
  path is the list of its components and \<^verbatim>\<open>os.path.join(p, x)\<close> is \<open>p @ [x]\<close>: the names
  joined are single components (not empty, without separator, not \<^verbatim>\<open>.\<close> or \<^verbatim>\<open>..\<close>). The
  file system is a store from paths to nodes, an association list read with \<open>map_of\<close>;
  the order of its entries is the order in which \<^verbatim>\<open>os.listdir\<close> gives them.
\<close>

type_synonym ruta = "string list"

datatype nodo = Archivo string | Directorio

type_synonym fsys = "(ruta \<times> nodo) list"

definition existe :: "fsys \<Rightarrow> ruta \<Rightarrow> bool" where
  "existe fs p = (p = [] \<or> map_of fs p \<noteq> None)"

definition es_dir :: "fsys \<Rightarrow> ruta \<Rightarrow> bool" where
  "es_dir fs p = (p = [] \<or> map_of fs p = Some Directorio)"

definition OSError :: "string \<Rightarrow> exn" where
  "OSError txt = Exn OtraException txt"

definition entradas :: "fsys \<Rightarrow> ruta \<Rightarrow> string list" where
  "entradas fs d = remdups (map (last \<circ> fst) (filter (\<lambda>(p, n). p \<noteq> [] \<and> butlast p = d) fs))"

definition listdir :: "fsys \<Rightarrow> ruta \<Rightarrow> exn + string list" where
  "listdir fs d =
     (if es_dir fs d then Inr (entradas fs d)
      else if existe fs d then Inl (OSError ''NotADirectoryError'')
      else Inl (OSError ''FileNotFoundError''))"

text \<open>
  \<^verbatim>\<open>os.makedirs(p, exist_ok=True)\<close>: the missing directories along \<open>p\<close> are created; a
  regular file on the way raises.
\<close>

fun makedirs_desde :: "fsys \<Rightarrow> ruta \<Rightarrow> string list \<Rightarrow> exn + fsys" where
  "makedirs_desde fs base [] = Inr fs"
| "makedirs_desde fs base (x # xs) =
     (if es_dir fs (base @ [x]) then makedirs_desde fs (base @ [x]) xs
      else if existe fs (base @ [x]) then Inl (OSError ''FileExistsError'')
      else makedirs_desde (fs @ [(base @ [x], Directorio)]) (base @ [x]) xs)"

definition makedirs :: "fsys \<Rightarrow> ruta \<Rightarrow> exn + fsys" where
  "makedirs fs p = makedirs_desde fs [] p"

text \<open>
  \<^verbatim>\<open>shutil.move(src, dst)\<close> for a regular file \<open>src\<close> (the program moves only a file that it
  has just opened and read). If \<open>dst\<close> is a directory the file goes into it under its own
  name, unless that name is taken there, which raises \<^verbatim>\<open>shutil.Error\<close>. Otherwise the file
  is renamed to \<open>dst\<close>; a regular file that is at \<open>dst\<close> is replaced (by \<^verbatim>\<open>os.rename\<close>, or
  where that refuses, by the copy and unlink that \<^verbatim>\<open>shutil.move\<close> falls back to).
\<close>

definition shutil_move :: "fsys \<Rightarrow> ruta \<Rightarrow> ruta \<Rightarrow> exn + fsys" where
  "shutil_move fs src dst =
     (case map_of fs src of
        Some (Archivo contenido) \<Rightarrow>
          (let real_dst = (if es_dir fs dst then dst @ [last src] else dst) in
           if es_dir fs dst \<and> existe fs real_dst then Inl (OSError ''shutil.Error'')
           else if \<not> es_dir fs (butlast real_dst) then Inl (OSError ''FileNotFoundError'')
           else Inr (AList.update real_dst (Archivo contenido) (AList.delete src fs)))
      | Some Directorio \<Rightarrow> Inl (OSError ''IsADirectoryError'')
      | None \<Rightarrow> Inl (OSError ''FileNotFoundError''))"

subsection \<open>\<^verbatim>\<open>procesar_multiple_regages\<close>\<close>

text \<open>\<^verbatim>\<open>f.lower().endswith('.json')\<close>; only the letters A to Z matter for this suffix.\<close>

definition minuscula :: "char \<Rightarrow> char" where
  "minuscula c =
     (case map_of (zip ''ABCDEFGHIJKLMNOPQRSTUVWXYZ'' ''abcdefghijklmnopqrstuvwxyz'') c of
        Some l \<Rightarrow> l
      | None \<Rightarrow> c)"

definition es_json :: "string \<Rightarrow> bool" where
  "es_json f = suffix ''.json'' (map minuscula f)"

text \<open>
  The directory a processed file goes to: \<^verbatim>\<open>trash\<close> in \<^verbatim>\<open>src/RegageMetalls.py\<close>,
  \<^verbatim>\<open>trash/<nombre_productor>\<close> (spaces replaced) in \<^verbatim>\<open>src/src/mains/RegageMetalls.py\<close>.
\<close>

definition trash_dir_de :: "copia \<Rightarrow> json \<Rightarrow> exn + ruta" where
  "trash_dir_de cp registro =
     (case cp of
        Raiz \<Rightarrow> Inr [''trash'']
      | Mains \<Rightarrow>
          (case nombre_productor_de registro of
             Inl e \<Rightarrow> Inl e
           | Inr v \<Rightarrow> Inr [''trash'', py_str v]))"

text \<open>
  The last part of the loop body, from the comment \<^verbatim>\<open>Mover el archivo procesado a la
  carpeta trash\<close> to the \<^verbatim>\<open>except\<close> clause around \<^verbatim>\<open>shutil.move\<close>: an exception of
  \<^verbatim>\<open>shutil.move\<close> is logged, any other one leaves the function.
\<close>

definition archivar :: "copia \<Rightarrow> json \<Rightarrow> ruta \<Rightarrow> fsys \<Rightarrow> (exn + fsys) \<times> event list" where
  "archivar cp registro ruta_json fs =
     (case trash_dir_de cp registro of
        Inl e \<Rightarrow> (Inl e, [])
      | Inr trash_dir \<Rightarrow>
          (case makedirs fs trash_dir of
             Inl e \<Rightarrow> (Inl e, [])
           | Inr fs1 \<Rightarrow>
               (let destino = trash_dir @ [last ruta_json] in
                case shutil_move fs1 ruta_json destino of
                  Inr fs2 \<Rightarrow>
                    (Inr fs2, [Log INFO ''INFO-19'' [AStr (last ruta_json), ARuta destino]])
                | Inl e \<Rightarrow>
                    (Inr fs1, [Log ERROR ''ERR-15'' [ARuta ruta_json, AExn e]]))))"

text \<open>
  The inner loop over the files of one folder, with the counter \<^verbatim>\<open>registros_procesados\<close>.
  \<open>Limite\<close> is the \<^verbatim>\<open>return\<close> at the limit, \<open>Sigue\<close> the end of the list.
\<close>

datatype fin_bucle = Sigue | Limite

fun bucle_archivos ::
  "copia \<Rightarrow> 'w entorno \<Rightarrow> int \<Rightarrow> ruta \<Rightarrow> string list \<Rightarrow> nat \<Rightarrow> 'w \<times> fsys \<Rightarrow>
     (exn + fin_bucle \<times> nat) \<times> ('w \<times> fsys) \<times> event list" where
  "bucle_archivos cp env max_registros carpeta [] n st = (Inr (Sigue, n), st, [])"
| "bucle_archivos cp env max_registros carpeta (archivo_json # resto) n (w, fs) =
     (if max_registros \<le> int n
      then (Inr (Limite, n), (w, fs), [Log INFO ''INFO-17'' [AInt max_registros]])
      else
       (case map_of fs (carpeta @ [archivo_json]) of
          None \<Rightarrow>
            (Inl (OSError ''FileNotFoundError''), (w, fs),
             [Log INFO ''INFO-18'' [ANat (n + 1), AInt max_registros, AStr archivo_json]])
        | Some Directorio \<Rightarrow>
            (Inl (OSError ''IsADirectoryError''), (w, fs),
             [Log INFO ''INFO-18'' [ANat (n + 1), AInt max_registros, AStr archivo_json]])
        | Some (Archivo contenido) \<Rightarrow>
            (case json_load env contenido of
               Inl e \<Rightarrow>
                 (case bucle_archivos cp env max_registros carpeta resto n (w, fs) of
                    (r, st', evs) \<Rightarrow>
                      (r, st',
                       [Log INFO ''INFO-18'' [ANat (n + 1), AInt max_registros, AStr archivo_json],
                        Log ERROR ''ERR-14'' [ARuta (carpeta @ [archivo_json]), AExn e]] @ evs))
             | Inr registro \<Rightarrow>
                 (case procesar_registro cp env registro w of
                    (Inl e, w1, evs1) \<Rightarrow>
                      (Inl e, (w1, fs),
                       [Log INFO ''INFO-18''
                          [ANat (n + 1), AInt max_registros, AStr archivo_json]] @ evs1)
                  | (Inr archivos_descargados, w1, evs1) \<Rightarrow>
                      (case archivar cp registro (carpeta @ [archivo_json]) fs of
                         (Inl e, evs2) \<Rightarrow>
                           (Inl e, (w1, fs),
                            [Log INFO ''INFO-18''
                               [ANat (n + 1), AInt max_registros, AStr archivo_json]]
                            @ evs1 @ evs2)
                       | (Inr fs2, evs2) \<Rightarrow>
                           (case bucle_archivos cp env max_registros carpeta resto (Suc n)
                                   (w1, fs2) of
                              (r, st', evs3) \<Rightarrow>
                                (r, st',
                                 [Log INFO ''INFO-18''
                                    [ANat (n + 1), AInt max_registros, AStr archivo_json]]
                                 @ evs1 @ evs2
                                 @ [Log INFO ''INFO-20'' [], Sleep 10000] @ evs3)))))))"

fun bucle_carpetas ::
  "copia \<Rightarrow> 'w entorno \<Rightarrow> int \<Rightarrow> ruta list \<Rightarrow> nat \<Rightarrow> 'w \<times> fsys \<Rightarrow>
     (exn + fin_bucle \<times> nat) \<times> ('w \<times> fsys) \<times> event list" where
  "bucle_carpetas cp env max_registros [] n st = (Inr (Sigue, n), st, [])"
| "bucle_carpetas cp env max_registros (carpeta # resto) n (w, fs) =
     (case listdir fs carpeta of
        Inl e \<Rightarrow> (Inl e, (w, fs), [])
      | Inr nombres \<Rightarrow>
          (case bucle_archivos cp env max_registros carpeta (filter es_json nombres) n (w, fs) of
             (Inl e, st', evs) \<Rightarrow> (Inl e, st', evs)
           | (Inr (Limite, n'), st', evs) \<Rightarrow> (Inr (Limite, n'), st', evs)
           | (Inr (Sigue, n'), st', evs) \<Rightarrow>
               (case bucle_carpetas cp env max_registros resto n' st' of
                  (r, st'', evs') \<Rightarrow> (r, st'', evs @ evs'))))"

definition carpetas_de :: "fsys \<Rightarrow> string list \<Rightarrow> ruta list" where
  "carpetas_de fs ds = map (\<lambda>d. [''output'', d]) (filter (\<lambda>d. es_dir fs [''output'', d]) ds)"

definition procesar_multiple_regages ::
  "copia \<Rightarrow> 'w entorno \<Rightarrow> int \<Rightarrow> 'w \<times> fsys \<Rightarrow> (exn + unit) \<times> ('w \<times> fsys) \<times> event list" where
  "procesar_multiple_regages cp env max_registros st =
     (case st of (w, fs) \<Rightarrow>
      if \<not> existe fs [''output'']
      then (Inr (), st, [Log ERROR ''ERR-12'' [ARuta [''output'']]])
      else
       (case listdir fs [''output''] of
          Inl e \<Rightarrow> (Inl e, st, [])
        | Inr ds \<Rightarrow>
            if carpetas_de fs ds = []
            then (Inr (), st, [Log ERROR ''ERR-13'' [ARuta [''output'']]])
            else
             (case bucle_carpetas cp env max_registros (carpetas_de fs ds) 0 st of
                (Inl e, st', evs) \<Rightarrow> (Inl e, st', evs)
              | (Inr (Limite, n), st', evs) \<Rightarrow> (Inr (), st', evs)
              | (Inr (Sigue, n), st', evs) \<Rightarrow>
                  (Inr (), st', evs @ [Log INFO ''INFO-21'' [ANat n]]))))"

subsection \<open>Conditions on the file system\<close>

text \<open>
  \<open>sin_archivos_hasta k\<close>: no regular file sits at \<^verbatim>\<open>trash\<close> or below it down to depth \<open>k\<close>,
  where \<^verbatim>\<open>os.makedirs\<close> has to find or make directories (depth 1 for \<^verbatim>\<open>trash\<close>, depth 2
  for \<^verbatim>\<open>trash/<nombre_productor>\<close>). \<open>fuera Q\<close> is the part of the file system outside
  \<^verbatim>\<open>trash\<close> at the paths that satisfy \<open>Q\<close>. \<open>componente\<close> says that a name is a single path
  component that a file system takes as the name of a directory (\<^verbatim>\<open>os.makedirs\<close> is
  modelled for such names only).
\<close>

definition sin_archivos_hasta :: "nat \<Rightarrow> fsys \<Rightarrow> bool" where
  "sin_archivos_hasta k fs =
     list_all (\<lambda>(p, n). take 1 p = [''trash''] \<and> length p \<le> k \<longrightarrow> n = Directorio) fs"


definition nivel :: "copia \<Rightarrow> nat" where
  "nivel cp = (case cp of Raiz \<Rightarrow> 1 | Mains \<Rightarrow> 2)"

definition componente :: "string \<Rightarrow> bool" where
  "componente s = (s \<noteq> [] \<and> s \<noteq> ''.'' \<and> s \<noteq> ''..''
     \<and> list_all (\<lambda>x. x \<notin> set [CHR ''/'', CHR 0x5C, CHR '':'', CHR ''*'', CHR ''?'', CHR 0x22,
                                 CHR ''<'', CHR ''>'', CHR ''|'']) s)"

subsection \<open>The record files of a run\<close>






fun avance :: "(ruta \<Rightarrow> bool) \<Rightarrow> int \<Rightarrow> nat \<Rightarrow> ruta list \<Rightarrow> fin_bucle \<times> nat" where
  "avance P max_registros n [] = (Sigue, n)"
| "avance P max_registros n (p # ps) =
     (if max_registros \<le> int n then (Limite, n)
      else avance P max_registros (if P p then Suc n else n) ps)"


subsection \<open>Reading the events\<close>

text \<open>
  The calls of one function among the events (their arguments, in order), the log lines
  of level \<^verbatim>\<open>ERROR\<close>, and the log lines with a given code (the values formatted into
  them, in order).
\<close>

fun llamadas_a :: "string \<Rightarrow> event list \<Rightarrow> string list list" where
  "llamadas_a f [] = []"
| "llamadas_a f (Call g args # evs) = (if g = f then [args] else []) @ llamadas_a f evs"
| "llamadas_a f (Log n c as # evs) = llamadas_a f evs"
| "llamadas_a f (Sleep ms # evs) = llamadas_a f evs"

fun errores :: "event list \<Rightarrow> event list" where
  "errores [] = []"
| "errores (Log ERROR c as # evs) = Log ERROR c as # errores evs"
| "errores (ev # evs) = errores evs"

fun lineas :: "string \<Rightarrow> event list \<Rightarrow> arg list list" where
  "lineas cod [] = []"
| "lineas cod (Log n c as # evs) = (if c = cod then [as] else []) @ lineas cod evs"
| "lineas cod (Call f args # evs) = lineas cod evs"
| "lineas cod (Sleep ms # evs) = lineas cod evs"

subsection \<open>Surroundings to run the program in\<close>

text \<open>
  A family of concrete surroundings for running the definitions. The state is a clock:
  the number of calls of the other modules made so far. Three predicates on the clock say
  when \<^verbatim>\<open>abrir_web\<close>, \<^verbatim>\<open>esperar_elemento_por_id\<close> and \<^verbatim>\<open>clickar_todos_los_links\<close> raise;
  everything else succeeds. \<open>json_de\<close> stands for \<^verbatim>\<open>json.load\<close> on a few texts: \<open>{}\<close> is
  the empty object, \<open>[]\<close> a value that is no object, \<open>productor:X\<close> the object with
  \<^verbatim>\<open>nombre_productor\<close> \<open>X\<close>; any other text does not parse.
\<close>

definition json_de :: "string \<Rightarrow> exn + json" where
  "json_de s =
     (if s = ''{}'' then Inr (JObj [])
      else if s = ''[]'' then Inr JNoObj
      else if take 10 s = ''productor:'' then Inr (JObj [(''nombre_productor'', JStr (drop 10 s))])
      else Inl (Exn OtraException ''JSONDecodeError''))"

definition entorno_de :: "(nat \<Rightarrow> bool) \<Rightarrow> (nat \<Rightarrow> bool) \<Rightarrow> (nat \<Rightarrow> bool) \<Rightarrow> nat entorno" where
  "entorno_de falla_abrir falla_esperar falla_click =
     \<lparr>configure = (\<lambda>w. (Inr (Some 7), Suc w)),
      abrir_web = (\<lambda>d l w.
        (if falla_abrir w then Inl (Exn TimeoutException ''timeout'') else Inr (), Suc w)),
      esperar_elemento_por_id = (\<lambda>d i w.
        (if falla_esperar w then Inl (Exn OtraException ''NotLandedError'') else Inr (), Suc w)),
      clickar_boton_por_value = (\<lambda>d v w. (Inr (), Suc w)),
      clickar_boton_por_texto = (\<lambda>d t w. (Inr (), Suc w)),
      seleccionar_certificado_chrome = (\<lambda>n w. (Inr (), Suc w)),
      nombre_cert = Some ''CERT'',
      setup_descarga = (\<lambda>d p r w. (Inr (''descargas/'' @ p @ ''_'' @ r), Suc w)),
      snapshot_folder_state = (\<lambda>p w. (Inr [], Suc w)),
      clickar_todos_los_links = (\<lambda>d s w.
        (if falla_click w then Inl (Exn WebDriverException ''click'') else Inr (), Suc w)),
      wait_for_new_download = (\<lambda>p old n w. (Inr [''a.pdf'', ''b.pdf''], Suc w)),
      driver_quit = (\<lambda>d w. (Inr (), Suc w)),
      json_load = json_de\<rparr>"

text \<open>Surroundings in which \<^verbatim>\<open>setup_descarga\<close> raises and the click on the PDF links fails.\<close>

definition entorno_sin_carpeta :: "nat entorno" where
  "entorno_sin_carpeta =
     (entorno_de (\<lambda>w. False) (\<lambda>w. False) (\<lambda>w. True))
       \<lparr>setup_descarga := (\<lambda>d p r w. (Inl (Exn TimeoutException ''setup''), Suc w))\<rparr>"

text \<open>
  Surroundings in which every call succeeds, and three small file systems: two producer
  folders with record files, one of them malformed; a record file whose archive copy of
  an earlier run is still in \<^verbatim>\<open>trash\<close>; and a single malformed record file.
\<close>

definition entorno_bueno :: "nat entorno" where
  "entorno_bueno = entorno_de (\<lambda>w. False) (\<lambda>w. False) (\<lambda>w. False)"

definition fs_ejemplo :: fsys where
  "fs_ejemplo =
     [([''output''], Directorio),
      ([''output'', ''P''], Directorio),
      ([''output'', ''P'', ''a.json''], Archivo ''productor:ACME SA''),
      ([''output'', ''P'', ''b.JSON''], Archivo ''roto''),
      ([''output'', ''P'', ''c.json''], Archivo ''{}''),
      ([''output'', ''Q''], Directorio),
      ([''output'', ''Q'', ''d.json''], Archivo ''productor:Q''),
      ([''output'', ''Q'', ''notas.txt''], Archivo ''hola'')]"

definition fs_archivado :: fsys where
  "fs_archivado =
     [([''output''], Directorio),
      ([''output'', ''P''], Directorio),
      ([''output'', ''P'', ''a.json''], Archivo ''productor:ACME SA''),
      ([''trash''], Directorio),
      ([''trash'', ''ACME_SA''], Directorio),
      ([''trash'', ''ACME_SA'', ''a.json''], Archivo ''productor:ACME SA, antes'')]"

definition fs_roto :: fsys where
  "fs_roto =
     [([''output''], Directorio),
      ([''output'', ''P''], Directorio),
      ([''output'', ''P'', ''roto.json''], Archivo ''roto'')]"

section \<open>Properties\<close>

subsection \<open>The link\<close>

lemma get_linkMiteco_partes:
  "get_linkMiteco r p n =
     ''https://sede.miteco.gob.es/portal/site/seMITECO/area_personal?btnDetalleProc=btnDetalleProc&pagina=1&idExpediente=''
     @ r @ ''&idProcedimiento=736&idSubOrganoResp=11&idDocIdentificativo='' @ p
     @ ''&idDocRepresentante='' @ n
     @ ''&idEstadoSeleccionado=-1&idTipoProcSeleccionado=EN+REPRESENTACION+(REA)&regInicial=''
     @ r @ ''&nifTitular='' @ p @ ''&numPagSolSelec=10#no-back-button''"
  by (simp add: get_linkMiteco_def)

lemma sublist_en_medio: "ys = ps @ xs @ ss \<Longrightarrow> sublist xs ys"
  by (auto simp: sublist_def)

text \<open>
  Claim C1, as amended. For every triple of strings, \<^verbatim>\<open>get_linkMiteco\<close> returns the fixed
  text of the URL with the case id substituted at exactly two places (after
  \<^verbatim>\<open>idExpediente=\<close> and after \<^verbatim>\<open>regInicial=\<close>), the producer id at exactly two places (after
  \<^verbatim>\<open>idDocIdentificativo=\<close> and after \<^verbatim>\<open>nifTitular=\<close>) and the representative id at exactly
  one place (after \<^verbatim>\<open>idDocRepresentante=\<close>). So the URL contains these five parameters, the
  four fixed parameters verbatim, and ends with \<^verbatim>\<open>numPagSolSelec=10#no-back-button\<close>. How
  often an id, or a parameter with its value, occurs in the URL as a text depends on the
  inputs.
\<close>

theorem get_linkMiteco_parametros:
  "get_linkMiteco r p n =
     ''https://sede.miteco.gob.es/portal/site/seMITECO/area_personal?btnDetalleProc=btnDetalleProc&pagina=1&idExpediente=''
     @ r @ ''&idProcedimiento=736&idSubOrganoResp=11&idDocIdentificativo='' @ p
     @ ''&idDocRepresentante='' @ n
     @ ''&idEstadoSeleccionado=-1&idTipoProcSeleccionado=EN+REPRESENTACION+(REA)&regInicial=''
     @ r @ ''&nifTitular='' @ p @ ''&numPagSolSelec=10#no-back-button''
   \<and> sublist (''idExpediente='' @ r) (get_linkMiteco r p n)
   \<and> sublist (''regInicial='' @ r) (get_linkMiteco r p n)
   \<and> sublist (''idDocIdentificativo='' @ p) (get_linkMiteco r p n)
   \<and> sublist (''nifTitular='' @ p) (get_linkMiteco r p n)
   \<and> sublist (''idDocRepresentante='' @ n) (get_linkMiteco r p n)
   \<and> sublist ''idProcedimiento=736'' (get_linkMiteco r p n)
   \<and> sublist ''idSubOrganoResp=11'' (get_linkMiteco r p n)
   \<and> sublist ''idEstadoSeleccionado=-1'' (get_linkMiteco r p n)
   \<and> sublist ''idTipoProcSeleccionado=EN+REPRESENTACION+(REA)'' (get_linkMiteco r p n)
   \<and> suffix ''numPagSolSelec=10#no-back-button'' (get_linkMiteco r p n)"
proof -
  let ?u = "get_linkMiteco r p n"
  let ?a = "''https://sede.miteco.gob.es/portal/site/seMITECO/area_personal?btnDetalleProc=btnDetalleProc&pagina=1&''"
  let ?z = "''&numPagSolSelec=10#no-back-button''"
  let ?t4 = "''&nifTitular='' @ p @ ?z"
  let ?t3 = "''&regInicial='' @ r @ ?t4"
  let ?t2 = "''&idEstadoSeleccionado=-1&idTipoProcSeleccionado=EN+REPRESENTACION+(REA)'' @ ?t3"
  let ?t1 = "''&idDocRepresentante='' @ n @ ?t2"
  let ?t0 = "''&idDocIdentificativo='' @ p @ ?t1"
  let ?h1 = "?a @ ''idExpediente='' @ r @ ''&''"
  let ?h2 = "?h1 @ ''idProcedimiento=736&idSubOrganoResp=11&''"
  let ?h3 = "?h2 @ ''idDocIdentificativo='' @ p @ ''&''"
  let ?h4 = "?h3 @ ''idDocRepresentante='' @ n @ ''&''"
  let ?h5 = "?h4 @ ''idEstadoSeleccionado=-1&idTipoProcSeleccionado=EN+REPRESENTACION+(REA)&''"
  let ?h6 = "?h5 @ ''regInicial='' @ r @ ''&''"
  have e1: "sublist (''idExpediente='' @ r) ?u"
    by (rule sublist_en_medio [where ps = ?a and ss = "''&idProcedimiento=736&idSubOrganoResp=11'' @ ?t0"])
       (simp add: get_linkMiteco_def)
  have e2: "sublist (''regInicial='' @ r) ?u"
    by (rule sublist_en_medio [where ps = ?h5 and ss = ?t4]) (simp add: get_linkMiteco_def)
  have e3: "sublist (''idDocIdentificativo='' @ p) ?u"
    by (rule sublist_en_medio [where ps = ?h2 and ss = ?t1]) (simp add: get_linkMiteco_def)
  have e4: "sublist (''nifTitular='' @ p) ?u"
    by (rule sublist_en_medio [where ps = ?h6 and ss = ?z]) (simp add: get_linkMiteco_def)
  have e5: "sublist (''idDocRepresentante='' @ n) ?u"
    by (rule sublist_en_medio [where ps = ?h3 and ss = ?t2]) (simp add: get_linkMiteco_def)
  have f1: "sublist ''idProcedimiento=736'' ?u"
    by (rule sublist_en_medio [where ps = ?h1 and ss = "''&idSubOrganoResp=11'' @ ?t0"])
       (simp add: get_linkMiteco_def)
  have f2: "sublist ''idSubOrganoResp=11'' ?u"
    by (rule sublist_en_medio [where ps = "?h1 @ ''idProcedimiento=736&''" and ss = ?t0])
       (simp add: get_linkMiteco_def)
  have f3: "sublist ''idEstadoSeleccionado=-1'' ?u"
    by (rule sublist_en_medio [where ps = ?h4
          and ss = "''&idTipoProcSeleccionado=EN+REPRESENTACION+(REA)'' @ ?t3"])
       (simp add: get_linkMiteco_def)
  have f4: "sublist ''idTipoProcSeleccionado=EN+REPRESENTACION+(REA)'' ?u"
    by (rule sublist_en_medio [where ps = "?h4 @ ''idEstadoSeleccionado=-1&''" and ss = ?t3])
       (simp add: get_linkMiteco_def)
  have g: "suffix ''numPagSolSelec=10#no-back-button'' ?u"
    by (rule suffixI [where zs = "?h6 @ ''nifTitular='' @ p @ ''&''"])
       (simp add: get_linkMiteco_def)
  show ?thesis
    by (intro conjI get_linkMiteco_partes e1 e2 e3 e4 e5 f1 f2 f3 f4 g)
qed

text \<open>
  Claim C1 as stated counts occurrences. When the producer is its own representative the
  producer id occurs three times in the URL, not twice; and when the case id carries the
  text of a parameter, \<^verbatim>\<open>idDocRepresentante=X\<close> occurs three times, not once.
\<close>

theorem get_linkMiteco_contraejemplo:
  "ocurrencias ''B12345678''
      (get_linkMiteco ''NT30460004811420250013409'' ''B12345678'' ''B12345678'') = 3
   \<and> ocurrencias ''idDocRepresentante=X''
      (get_linkMiteco ''Z&idDocRepresentante=X'' ''B12345678'' ''X'') = 3"
  by (simp add: get_linkMiteco_def)

text \<open>
  Claim C10. For every triple of strings, the empty string and strings with URL
  metacharacters included, \<^verbatim>\<open>get_linkMiteco\<close> puts the three values into the URL as they
  are: the URL is the fixed text with the values in between, each value is a contiguous
  part of it, and its length is the length of the fixed text (322) plus the lengths of the
  values at their five places, so nothing is encoded, escaped or rejected. A value with a
  space, \<^verbatim>\<open>&\<close>, \<^verbatim>\<open>=\<close> and \<^verbatim>\<open>#\<close> shows up unchanged.
\<close>

theorem get_linkMiteco_sin_codificar:
  "get_linkMiteco r p n =
     ''https://sede.miteco.gob.es/portal/site/seMITECO/area_personal?btnDetalleProc=btnDetalleProc&pagina=1&idExpediente=''
     @ r @ ''&idProcedimiento=736&idSubOrganoResp=11&idDocIdentificativo='' @ p
     @ ''&idDocRepresentante='' @ n
     @ ''&idEstadoSeleccionado=-1&idTipoProcSeleccionado=EN+REPRESENTACION+(REA)&regInicial=''
     @ r @ ''&nifTitular='' @ p @ ''&numPagSolSelec=10#no-back-button''
  \<and> sublist r (get_linkMiteco r p n) \<and> sublist p (get_linkMiteco r p n)
  \<and> sublist n (get_linkMiteco r p n)
  \<and> length (get_linkMiteco r p n) = 322 + 2 * length r + 2 * length p + length n
  \<and> get_linkMiteco ''a b&c=d#e'' [] [] =
     ''https://sede.miteco.gob.es/portal/site/seMITECO/area_personal?btnDetalleProc=btnDetalleProc&pagina=1&idExpediente=a b&c=d#e&idProcedimiento=736&idSubOrganoResp=11&idDocIdentificativo=&idDocRepresentante=&idEstadoSeleccionado=-1&idTipoProcSeleccionado=EN+REPRESENTACION+(REA)&regInicial=a b&c=d#e&nifTitular=&numPagSolSelec=10#no-back-button''"
proof -
  have s1: "sublist r (get_linkMiteco r p n)"
    by (rule sublist_en_medio [OF get_linkMiteco_partes])
  have s2: "sublist p (get_linkMiteco r p n)"
    by (rule sublist_en_medio [where ss = "''&numPagSolSelec=10#no-back-button''"])
       (simp add: get_linkMiteco_partes)
  have s3: "sublist n (get_linkMiteco r p n)"
    by (rule sublist_en_medio [where ss = "''&idEstadoSeleccionado=-1&idTipoProcSeleccionado=EN+REPRESENTACION+(REA)&regInicial=''
     @ r @ ''&nifTitular='' @ p @ ''&numPagSolSelec=10#no-back-button''"])
       (simp add: get_linkMiteco_partes)
  have l: "length (get_linkMiteco r p n) = 322 + 2 * length r + 2 * length p + length n"
    by (simp add: get_linkMiteco_def)
  have x: "get_linkMiteco ''a b&c=d#e'' [] [] =
     ''https://sede.miteco.gob.es/portal/site/seMITECO/area_personal?btnDetalleProc=btnDetalleProc&pagina=1&idExpediente=a b&c=d#e&idProcedimiento=736&idSubOrganoResp=11&idDocIdentificativo=&idDocRepresentante=&idEstadoSeleccionado=-1&idTipoProcSeleccionado=EN+REPRESENTACION+(REA)&regInicial=a b&c=d#e&nifTitular=&numPagSolSelec=10#no-back-button''"
    by (simp add: get_linkMiteco_def)
  show ?thesis
    by (intro conjI get_linkMiteco_partes s1 s2 s3 l x)
qed

subsection \<open>The retry loops\<close>

lemma traza_intentos_Nil [simp]: "traza_intentos et N i [] = []"
  by (simp add: traza_intentos_def)

lemma traza_intentos_Cons [simp]:
  "traza_intentos et N i (r # rs) = traza_intento et N (i, r) @ traza_intentos et N (Suc i) rs"
  by (simp add: traza_intentos_def)


lemma reintentar_agotado:
  "n \<le> N \<Longrightarrow>
   map (\<lambda>r. isl (fst r)) (resultados act n w) = replicate n True \<Longrightarrow>
   reintentar et N act n w =
     (False, mundo_tras act n w,
      traza_intentos et N (Suc (N - n)) (resultados act n w) @ [Log ERROR (et_error et) [ANat N]])"
proof (induction n arbitrary: w)
  case 0
  then show ?case by simp
next
  case (Suc n)
  obtain r w' evs where a: "act w = (r, w', evs)" by (cases "act w") auto
  with Suc.prems(2) obtain e where r: "r = Inl e" by (cases r) auto
  have h: "map (\<lambda>r. isl (fst r)) (resultados act n w') = replicate n True"
    using Suc.prems(2) a by simp
  have "n \<le> N" using Suc.prems by simp
  from Suc.IH [OF this h] have
    "reintentar et N act n w' =
      (False, mundo_tras act n w',
       traza_intentos et N (Suc (N - n)) (resultados act n w') @ [Log ERROR (et_error et) [ANat N]])" .
  moreover have "Suc (N - Suc n) = N - n" using Suc.prems by arith
  ultimately show ?case using a r by simp
qed

lemma siempre_falla:
  "(\<And>w. isl (fst (act w))) \<Longrightarrow> map (\<lambda>r. isl (fst r)) (resultados act n w) = replicate n True"
proof (induction n arbitrary: w)
  case 0
  then show ?case by simp
next
  case (Suc n)
  obtain r w' evs where a: "act w = (r, w', evs)" by (cases "act w") auto
  from Suc.prems [of w] a have "isl r" by simp
  with a Suc.IH [OF Suc.prems, of w'] show ?case by simp
qed


lemma bucle_agotado:
  "map (\<lambda>r. isl (fst r)) (resultados act N w) = replicate N True \<Longrightarrow>
   bucle_reintentos et N act w =
     (False, mundo_tras act N w,
      traza_intentos et N 1 (resultados act N w) @ [Log ERROR (et_error et) [ANat N]])"
  using reintentar_agotado [of N N act w et] by (simp add: bucle_reintentos_def)


lemma autenticar_agotado:
  "map (\<lambda>r. isl (fst r)) (resultados (intento_autenticacion env d) 100 w) = replicate 100 True \<Longrightarrow>
   autenticar_y_seleccionar_certificado env d w =
     (Inl (Exn OtraException ''Fallo en la autenticacion tras varios intentos''),
      mundo_tras (intento_autenticacion env d) 100 w,
      traza_intentos et_autenticar 100 1 (resultados (intento_autenticacion env d) 100 w)
      @ [Log ERROR ''ERR-01'' [ANat 100]])"
  by (simp add: autenticar_y_seleccionar_certificado_def bucle_agotado et_autenticar_def)

lemma abrir_agotado:
  "map (\<lambda>r. isl (fst r)) (resultados (abrir env d l) 5000 w) = replicate 5000 True \<Longrightarrow>
   con_navegador cp env c l d w =
     ((Inr None, Some d), mundo_tras (abrir env d l) 5000 w,
      traza_intentos et_abrir 5000 1 (resultados (abrir env d l) 5000 w)
      @ [Log ERROR ''ERR-05'' [ANat 5000]])"
  by (simp add: con_navegador_def bucle_agotado et_abrir_def)

lemma reabrir_agotado:
  "bucle_reintentos et_abrir 5000 (abrir env d l) w = (True, w1, evs1) \<Longrightarrow>
   bucle_reintentos et_auth 5000 (autenticar_y_seleccionar_certificado env d) w1 = (True, w2, evs2) \<Longrightarrow>
   map (\<lambda>r. isl (fst r)) (resultados (abrir env d l) 5000 w2) = replicate 5000 True \<Longrightarrow>
   con_navegador cp env c l d w =
     ((Inr None, Some d), mundo_tras (abrir env d l) 5000 w2,
      evs1 @ evs2 @ traza_intentos et_reabrir 5000 1 (resultados (abrir env d l) 5000 w2)
      @ [Log ERROR ''ERR-07'' [ANat 5000]])"
  by (simp add: con_navegador_def bucle_agotado et_reabrir_def)

lemma reintentar_pos:
  "0 < n \<Longrightarrow> reintentar et N act n w =
     (case act w of
        (Inr x, w', evs) \<Rightarrow> (True, w', evs @ [Log INFO (et_info et) [ANat (N - (n - 1))]])
      | (Inl e, w', evs) \<Rightarrow>
          (case reintentar et N act (n - 1) w' of
             (ok, w'', evs') \<Rightarrow>
               (ok, w'',
                evs @ [Log WARNING (et_warn et) [ANat (N - (n - 1)), ANat N, AExn e],
                       Sleep 500] @ evs')))"
  by (cases n) (auto simp: Let_def split: prod.splits sum.splits)

lemma siempre_falla_desde:
  assumes "P w" and "\<And>v. P v \<Longrightarrow> isl (fst (act v)) \<and> P (fst (snd (act v)))"
  shows "map (\<lambda>r. isl (fst r)) (resultados act n w) = replicate n True"
  using assms(1)
proof (induction n arbitrary: w)
  case 0
  then show ?case by simp
next
  case (Suc n)
  obtain r w' evs where a: "act w = (r, w', evs)" by (cases "act w") auto
  from assms(2) [OF Suc.prems] a have "isl r" "P w'" by simp_all
  with a Suc.IH [of w'] show ?case by simp
qed

lemma procesar_registro_con_navegador:
  assumes "campos_registro registro = Inr c"
    and "configure env w = (Inr (Some d), w1)"
    and "con_navegador cp env c
           (get_linkMiteco (py_str (regage c)) (py_str (nif_productor c))
              (py_str (nif_representante c))) d w1 = ((r, dv), w2, evs)"
  shows "fst (procesar_registro cp env registro w) = Inr (case r of Inr a \<Rightarrow> a | Inl e \<Rightarrow> None)"
  using assms
  by (simp add: procesar_registro_def cuerpo_registro_def llamar_def Let_def
      split: prod.splits sum.splits option.splits)



text \<open>
  Claim C3, as amended. If the action fails on each of \<open>N\<close> attempts, a loop with ceiling
  \<open>N\<close> makes exactly these \<open>N\<close> attempts, writes after each the warning with the attempt
  number and \<open>N\<close> and sleeps 500 ms, then logs its error and ends without \<^verbatim>\<open>break\<close>
  (\<open>False\<close>); the loop itself raises nothing. What follows depends on the loop. When
  opening the page fails 5000 times, and when re-opening it after the authentication
  fails 5000 times, the body of the \<^verbatim>\<open>try\<close> of \<^verbatim>\<open>procesar_registro\<close> returns \<^verbatim>\<open>None\<close>, its
  variable \<^verbatim>\<open>driver\<close> still holding the driver. When the authentication attempt fails
  100 times, \<^verbatim>\<open>autenticar_y_seleccionar_certificado\<close> raises an exception to its caller.
  And when the body of the \<^verbatim>\<open>try\<close> returns \<^verbatim>\<open>None\<close>, so does \<^verbatim>\<open>procesar_registro\<close>.
\<close>

theorem reintentos_agotados:
  "(map (\<lambda>r. isl (fst r)) (resultados act N w) = replicate N True
    \<longrightarrow> bucle_reintentos et N act w =
          (False, mundo_tras act N w,
           traza_intentos et N 1 (resultados act N w) @ [Log ERROR (et_error et) [ANat N]]))
   \<and> (map (\<lambda>r. isl (fst r)) (resultados (abrir env d l) 5000 wa) = replicate 5000 True
    \<longrightarrow> con_navegador cp env c l d wa =
          ((Inr None, Some d), mundo_tras (abrir env d l) 5000 wa,
           traza_intentos et_abrir 5000 1 (resultados (abrir env d l) 5000 wa)
           @ [Log ERROR ''ERR-05'' [ANat 5000]]))
   \<and> (bucle_reintentos et_abrir 5000 (abrir env d l) wb = (True, w1, evs1)
      \<and> bucle_reintentos et_auth 5000 (autenticar_y_seleccionar_certificado env d) w1
          = (True, w2, evs2)
      \<and> map (\<lambda>r. isl (fst r)) (resultados (abrir env d l) 5000 w2) = replicate 5000 True
    \<longrightarrow> con_navegador cp env c l d wb =
          ((Inr None, Some d), mundo_tras (abrir env d l) 5000 w2,
           evs1 @ evs2 @ traza_intentos et_reabrir 5000 1 (resultados (abrir env d l) 5000 w2)
           @ [Log ERROR ''ERR-07'' [ANat 5000]]))
   \<and> (map (\<lambda>r. isl (fst r)) (resultados (intento_autenticacion env d) 100 wc)
        = replicate 100 True
    \<longrightarrow> autenticar_y_seleccionar_certificado env d wc =
          (Inl (Exn OtraException ''Fallo en la autenticacion tras varios intentos''),
           mundo_tras (intento_autenticacion env d) 100 wc,
           traza_intentos et_autenticar 100 1 (resultados (intento_autenticacion env d) 100 wc)
           @ [Log ERROR ''ERR-01'' [ANat 100]]))
   \<and> (campos_registro registro = Inr c \<and> configure env w0 = (Inr (Some d), wd)
      \<and> con_navegador cp env c
            (get_linkMiteco (py_str (regage c)) (py_str (nif_productor c))
               (py_str (nif_representante c))) d wd = ((Inr None, Some d), we, evse)
    \<longrightarrow> fst (procesar_registro cp env registro w0) = Inr None)"
  using bucle_agotado [of act N w et] abrir_agotado [of env d l wa cp c]
    reabrir_agotado [of env d l wb w1 evs1 w2 evs2 cp c] autenticar_agotado [of env d wc]
    procesar_registro_con_navegador [of registro c env w0 d wd cp "Inr None" "Some d" we evse]
  by auto

text \<open>
  Claim C3 as stated says that no retry loop raises past its boundary. With a page that
  never shows the element waited for, \<^verbatim>\<open>autenticar_y_seleccionar_certificado\<close> raises.
\<close>

theorem reintentos_agotados_contraejemplo:
  "fst (autenticar_y_seleccionar_certificado
          (entorno_de (\<lambda>w. False) (\<lambda>w. True) (\<lambda>w. False)) 7 0)
   = Inl (Exn OtraException ''Fallo en la autenticacion tras varios intentos'')"
proof -
  have "map (\<lambda>r. isl (fst r))
          (resultados (intento_autenticacion (entorno_de (\<lambda>w. False) (\<lambda>w. True) (\<lambda>w. False)) 7)
             100 0) = replicate 100 True"
    by (rule siempre_falla)
       (simp add: intento_autenticacion_def luego_def llamar_def entorno_de_def)
  from autenticar_agotado [OF this] show ?thesis by simp
qed

text \<open>
  Claim C3 at work: a loop with ceiling 3 over a page that never opens; a page that never
  opens; a page that opens once and never again after the authentication; and a page on
  which the authentication never succeeds.
\<close>

theorem reintentos_agotados_witness:
  "bucle_reintentos et_abrir 3
      (abrir (entorno_de (\<lambda>w. True) (\<lambda>w. False) (\<lambda>w. False)) 7 ''u'') 0 =
     (False, 3,
      [Call ''webFunctions.abrir_web'' [''u''],
       Log WARNING ''WARN-02'' [ANat 1, ANat 3, AExn (Exn TimeoutException ''timeout'')],
       Sleep 500,
       Call ''webFunctions.abrir_web'' [''u''],
       Log WARNING ''WARN-02'' [ANat 2, ANat 3, AExn (Exn TimeoutException ''timeout'')],
       Sleep 500,
       Call ''webFunctions.abrir_web'' [''u''],
       Log WARNING ''WARN-02'' [ANat 3, ANat 3, AExn (Exn TimeoutException ''timeout'')],
       Sleep 500,
       Log ERROR ''ERR-05'' [ANat 3]])
   \<and> fst (con_navegador Mains (entorno_de (\<lambda>w. True) (\<lambda>w. False) (\<lambda>w. False))
            \<lparr>regage = JStr ''R'', nif_productor = JStr ''P'', nif_representante = JStr ''N'',
             nombre_productor = JStr ''a'', nombre_residuo = JStr ''b''\<rparr> ''u'' 7 0)
       = (Inr None, Some 7)
   \<and> fst (con_navegador Mains (entorno_de (\<lambda>w. 5 \<le> w) (\<lambda>w. False) (\<lambda>w. False))
            \<lparr>regage = JStr ''R'', nif_productor = JStr ''P'', nif_representante = JStr ''N'',
             nombre_productor = JStr ''a'', nombre_residuo = JStr ''b''\<rparr> ''u'' 7 0)
       = (Inr None, Some 7)
   \<and> fst (autenticar_y_seleccionar_certificado
            (entorno_de (\<lambda>w. False) (\<lambda>w. True) (\<lambda>w. False)) 7 0)
       = Inl (Exn OtraException ''Fallo en la autenticacion tras varios intentos'')
   \<and> fst (procesar_registro Raiz (entorno_de (\<lambda>w. True) (\<lambda>w. False) (\<lambda>w. False))
            (JObj []) 0) = Inr None"
proof -
  let ?c = "\<lparr>regage = JStr ''R'', nif_productor = JStr ''P'', nif_representante = JStr ''N'',
             nombre_productor = JStr ''a'', nombre_residuo = JStr ''b''\<rparr>"
  let ?e1 = "entorno_de (\<lambda>w. True) (\<lambda>w. False) (\<lambda>w. False)"
  let ?e2 = "entorno_de (\<lambda>w. 5 \<le> w) (\<lambda>w. False) (\<lambda>w. False)"
  let ?e3 = "entorno_de (\<lambda>w. False) (\<lambda>w. True) (\<lambda>w. False)"
  have h1: "map (\<lambda>r. isl (fst r)) (resultados (abrir ?e1 7 ''u'') 3 0) = replicate 3 True"
    by (rule siempre_falla) (simp add: abrir_def llamar_def entorno_de_def)
  have h2: "map (\<lambda>r. isl (fst r)) (resultados (abrir ?e1 7 ''u'') 5000 0) = replicate 5000 True"
    by (rule siempre_falla) (simp add: abrir_def llamar_def entorno_de_def)
  have h3a: "bucle_reintentos et_abrir 5000 (abrir ?e2 7 ''u'') 0
      = (True, 1, [Call ''webFunctions.abrir_web'' [''u''], Log INFO ''INFO-10'' [ANat 1]])"
    by (simp add: bucle_reintentos_def reintentar_pos abrir_def llamar_def entorno_de_def
        et_abrir_def)
  have h3b: "bucle_reintentos et_auth 5000 (autenticar_y_seleccionar_certificado ?e2 7) 1
      = (True, 5,
         [Call ''webFunctions.esperar_elemento_por_id'' [''breadcrumb''],
          Call ''webFunctions.clickar_boton_por_value'' [''acceder''],
          Call ''webFunctions.clickar_boton_por_texto'' [''Acceso DNIe / Certificado electronico''],
          Call ''certHandler.seleccionar_certificado_chrome'' [],
          Log INFO ''INFO-02'' [ANat 1], Log INFO ''INFO-11'' [ANat 1]])"
    by (simp add: bucle_reintentos_def reintentar_pos autenticar_y_seleccionar_certificado_def
        intento_autenticacion_def luego_def llamar_def entorno_de_def et_auth_def et_autenticar_def)
  have h3c: "map (\<lambda>r. isl (fst r)) (resultados (abrir ?e2 7 ''u'') 5000 5) = replicate 5000 True"
    by (rule siempre_falla_desde [where P = "\<lambda>w. 5 \<le> w"])
       (simp_all add: abrir_def llamar_def entorno_de_def)
  have h4: "map (\<lambda>r. isl (fst r)) (resultados (intento_autenticacion ?e3 7) 100 0)
      = replicate 100 True"
    by (rule siempre_falla)
       (simp add: intento_autenticacion_def luego_def llamar_def entorno_de_def)
  have t1: "bucle_reintentos et_abrir 3 (abrir ?e1 7 ''u'') 0 =
          (False, mundo_tras (abrir ?e1 7 ''u'') 3 0,
           traza_intentos et_abrir 3 1 (resultados (abrir ?e1 7 ''u'') 3 0)
           @ [Log ERROR (et_error et_abrir) [ANat 3]])"
    by (rule reintentos_agotados [THEN conjunct1, THEN mp, OF h1])
  have t2: "fst (con_navegador Mains ?e1 ?c ''u'' 7 0) = (Inr None, Some 7)"
    by (simp add: reintentos_agotados [THEN conjunct2, THEN conjunct1, THEN mp, OF h2])
  have t3: "fst (con_navegador Mains ?e2 ?c ''u'' 7 0) = (Inr None, Some 7)"
    by (simp add: reintentos_agotados [THEN conjunct2, THEN conjunct2, THEN conjunct1, THEN mp,
          OF conjI [OF h3a conjI [OF h3b h3c]]])
  have t4: "fst (autenticar_y_seleccionar_certificado ?e3 7 0)
       = Inl (Exn OtraException ''Fallo en la autenticacion tras varios intentos'')"
    by (simp add: reintentos_agotados [THEN conjunct2, THEN conjunct2, THEN conjunct2,
          THEN conjunct1, THEN mp, OF h4])
  have t1': "bucle_reintentos et_abrir 3 (abrir ?e1 7 ''u'') 0 =
     (False, 3,
      [Call ''webFunctions.abrir_web'' [''u''],
       Log WARNING ''WARN-02'' [ANat 1, ANat 3, AExn (Exn TimeoutException ''timeout'')],
       Sleep 500,
       Call ''webFunctions.abrir_web'' [''u''],
       Log WARNING ''WARN-02'' [ANat 2, ANat 3, AExn (Exn TimeoutException ''timeout'')],
       Sleep 500,
       Call ''webFunctions.abrir_web'' [''u''],
       Log WARNING ''WARN-02'' [ANat 3, ANat 3, AExn (Exn TimeoutException ''timeout'')],
       Sleep 500,
       Log ERROR ''ERR-05'' [ANat 3]])"
    using t1 by (simp add: numeral_3_eq_3 abrir_def llamar_def entorno_de_def et_abrir_def)
  let ?c0 = "\<lparr>regage = JStr [], nif_productor = JStr [], nif_representante = JStr [],
             nombre_productor = JStr ''desconocido'', nombre_residuo = JStr ''desconocido''\<rparr>"
  let ?l0 = "get_linkMiteco (py_str (regage ?c0)) (py_str (nif_productor ?c0))
               (py_str (nif_representante ?c0))"
  have h5a: "campos_registro (JObj []) = Inr ?c0"
    by (simp add: campos_registro_def nombre_productor_de_def nombre_residuo_de_def
        replace_char_def)
  have h5b: "configure ?e1 0 = (Inr (Some 7), 1)"
    by (simp add: entorno_de_def)
  have h5c: "map (\<lambda>r. isl (fst r)) (resultados (abrir ?e1 7 ?l0) 5000 1) = replicate 5000 True"
    by (rule siempre_falla) (simp add: abrir_def llamar_def entorno_de_def)
  note h5d = abrir_agotado [OF h5c, of Raiz ?c0]
  have t5: "fst (procesar_registro Raiz ?e1 (JObj []) 0) = Inr None"
    by (rule reintentos_agotados [THEN conjunct2, THEN conjunct2, THEN conjunct2,
          THEN conjunct2, THEN mp, OF conjI [OF h5a conjI [OF h5b h5d]]])
  show ?thesis using t1' t2 t3 t4 t5 by blast
qed

subsection \<open>Calls made by \<^verbatim>\<open>procesar_registro\<close>\<close>

lemma llamadas_a_append [simp]: "llamadas_a f (xs @ ys) = llamadas_a f xs @ llamadas_a f ys"
  by (induction f xs rule: llamadas_a.induct) simp_all

lemma llamadas_a_reintentar:
  assumes "\<And>v. llamadas_a f (snd (snd (act v))) = []"
  shows "llamadas_a f (snd (snd (reintentar et N act n w))) = []"
proof (induction n arbitrary: w)
  case 0
  then show ?case by simp
next
  case (Suc n)
  obtain r w' evs where a: "act w = (r, w', evs)" by (cases "act w") auto
  with assms [of w] have e: "llamadas_a f evs = []" by simp
  obtain ok w'' evs' where b: "reintentar et N act n w' = (ok, w'', evs')"
    by (cases "reintentar et N act n w'") auto
  with Suc.IH [of w'] have "llamadas_a f evs' = []" by simp
  with a b e show ?case by (cases r) simp_all
qed

lemma llamadas_a_bucle:
  "(\<And>v. llamadas_a f (snd (snd (act v))) = []) \<Longrightarrow>
   llamadas_a f (snd (snd (bucle_reintentos et N act w))) = []"
  by (simp add: bucle_reintentos_def llamadas_a_reintentar)

lemma llamadas_a_abrir:
  "f \<noteq> ''webFunctions.abrir_web'' \<Longrightarrow> llamadas_a f (snd (snd (abrir env d l w))) = []"
  by (simp add: abrir_def llamar_def split: prod.splits)

lemma llamadas_a_luego:
  assumes "\<And>v. llamadas_a f (snd (snd (m v))) = []"
    and "\<And>x v. llamadas_a f (snd (snd (g x v))) = []"
  shows "llamadas_a f (snd (snd (luego m g w))) = []"
proof -
  obtain r w' evs where a: "m w = (r, w', evs)" by (cases "m w") auto
  with assms(1) [of w] have e: "llamadas_a f evs = []" by simp
  show ?thesis
  proof (cases r)
    case (Inl x)
    with a e show ?thesis by (simp add: luego_def)
  next
    case (Inr x)
    obtain r2 w2 evs2 where b: "g x w' = (r2, w2, evs2)" by (cases "g x w'") auto
    with assms(2) [of x w'] have "llamadas_a f evs2 = []" by simp
    with a e b Inr show ?thesis by (simp add: luego_def)
  qed
qed

lemma llamadas_a_llamar:
  "g \<noteq> f \<Longrightarrow> llamadas_a f (snd (snd (llamar g args h w))) = []"
  by (simp add: llamar_def split: prod.splits)

lemma llamadas_a_emitir:
  "llamadas_a f evs = [] \<Longrightarrow> llamadas_a f (snd (snd (emitir evs w))) = []"
  by (simp add: emitir_def)

lemma llamadas_a_devolver: "llamadas_a f (snd (snd (devolver x w))) = []"
  by (simp add: devolver_def)

lemma llamadas_a_intento:
  "f = ''driver.quit'' \<or> f = ''downloadFunctions.setup_descarga'' \<Longrightarrow>
   llamadas_a f (snd (snd (intento_autenticacion env d w))) = []"
  unfolding intento_autenticacion_def
  by (intro llamadas_a_luego llamadas_a_llamar) auto

lemma llamadas_a_autenticar:
  "f = ''driver.quit'' \<or> f = ''downloadFunctions.setup_descarga'' \<Longrightarrow>
   llamadas_a f (snd (snd (autenticar_y_seleccionar_certificado env d w))) = []"
  using llamadas_a_bucle [of f "intento_autenticacion env d" et_autenticar 100 w]
    llamadas_a_intento [of f env d]
  by (auto simp: autenticar_y_seleccionar_certificado_def split: prod.splits)

lemma bucle_abrir_sin:
  "bucle_reintentos et N (abrir env d l) w = (ok, w', evs) \<Longrightarrow>
   llamadas_a ''driver.quit'' evs = [] \<and> llamadas_a ''downloadFunctions.setup_descarga'' evs = []"
  using llamadas_a_bucle [of "''driver.quit''" "abrir env d l" et N w]
    llamadas_a_bucle [of "''downloadFunctions.setup_descarga''" "abrir env d l" et N w]
  by (simp add: llamadas_a_abrir)

lemma bucle_auth_sin:
  "bucle_reintentos et N (autenticar_y_seleccionar_certificado env d) w = (ok, w', evs) \<Longrightarrow>
   llamadas_a ''driver.quit'' evs = [] \<and> llamadas_a ''downloadFunctions.setup_descarga'' evs = []"
  using llamadas_a_bucle [of "''driver.quit''" "autenticar_y_seleccionar_certificado env d" et N w]
    llamadas_a_bucle [of "''downloadFunctions.setup_descarga''"
      "autenticar_y_seleccionar_certificado env d" et N w]
  by (simp add: llamadas_a_autenticar)

lemma cerrar_navegador_quit:
  "cerrar_navegador env d ci as ce w = (w', evs) \<Longrightarrow>
   llamadas_a ''driver.quit'' evs = [[]] \<and> llamadas_a ''downloadFunctions.setup_descarga'' evs = []"
  by (auto simp: cerrar_navegador_def split: prod.splits sum.splits)

lemma lanzar_y_esperar_sin_f:
  "f = ''driver.quit'' \<or> f = ''downloadFunctions.setup_descarga'' \<Longrightarrow>
   llamadas_a f (snd (snd (lanzar_y_esperar env d p old n w))) = []"
  unfolding lanzar_y_esperar_def
  by (intro llamadas_a_luego llamadas_a_llamar llamadas_a_emitir llamadas_a_devolver) auto

lemma lanzar_y_esperar_sin:
  "lanzar_y_esperar env d p old n w = (r, w', evs) \<Longrightarrow>
   llamadas_a ''driver.quit'' evs = [] \<and> llamadas_a ''downloadFunctions.setup_descarga'' evs = []"
  using lanzar_y_esperar_sin_f [of "''driver.quit''" env d p old n w]
    lanzar_y_esperar_sin_f [of "''downloadFunctions.setup_descarga''" env d p old n w]
  by simp

lemma descargar_documentos_quit:
  assumes "descargar_documentos env d p n w = (r, w', evs)"
  shows "llamadas_a ''driver.quit'' evs = (if isl r then [] else [[]])
         \<and> llamadas_a ''downloadFunctions.setup_descarga'' evs = []"
proof (cases "snapshot_folder_state env p w")
  case (Pair s w0)
  show ?thesis
  proof (cases s)
    case (Inl e)
    with Pair assms show ?thesis
      by (auto simp: descargar_documentos_def llamar_def)
  next
    case (Inr old)
    obtain r1 w1 evs1 where l: "lanzar_y_esperar env d p old n w0 = (r1, w1, evs1)"
      by (cases "lanzar_y_esperar env d p old n w0") auto
    obtain w2 evs2 where c: "cerrar_navegador env d ''INFO-06'' [] ''ERR-03'' w1 = (w2, evs2)"
      by (cases "cerrar_navegador env d ''INFO-06'' [] ''ERR-03'' w1") auto
    from Pair Inr l c assms lanzar_y_esperar_sin [OF l] cerrar_navegador_quit [OF c]
    show ?thesis
      by (cases r1) (auto simp: descargar_documentos_def llamar_def)
  qed
qed

lemma con_navegador_llamadas:
  assumes "con_navegador cp env c l d w = ((r, dv), w', evs)"
  shows "llamadas_a ''driver.quit'' evs = (if dv = None then [[]] else [])
         \<and> (dv = None \<or> dv = Some d)
         \<and> set (llamadas_a ''downloadFunctions.setup_descarga'' evs)
             \<subseteq> {[py_str (nombre_productor c), py_str (nombre_residuo c)]}"
proof -
  obtain ok1 w1 evs1 where b1: "bucle_reintentos et_abrir 5000 (abrir env d l) w = (ok1, w1, evs1)"
    by (cases "bucle_reintentos et_abrir 5000 (abrir env d l) w") auto
  note s1 = bucle_abrir_sin [OF b1]
  show ?thesis
  proof (cases ok1)
    case False
    with assms b1 s1 show ?thesis by (auto simp: con_navegador_def)
  next
    case ok1: True
    obtain ok2 w2 evs2 where b2:
      "bucle_reintentos et_auth 5000 (autenticar_y_seleccionar_certificado env d) w1 = (ok2, w2, evs2)"
      by (cases "bucle_reintentos et_auth 5000 (autenticar_y_seleccionar_certificado env d) w1") auto
    note s2 = bucle_auth_sin [OF b2]
    show ?thesis
    proof (cases ok2)
      case False
      with assms b1 s1 ok1 b2 s2 show ?thesis by (auto simp: con_navegador_def)
    next
      case ok2: True
      obtain ok3 w3 evs3 where b3:
        "bucle_reintentos et_reabrir 5000 (abrir env d l) w2 = (ok3, w3, evs3)"
        by (cases "bucle_reintentos et_reabrir 5000 (abrir env d l) w2") auto
      note s3 = bucle_abrir_sin [OF b3]
      show ?thesis
      proof (cases ok3)
        case False
        with assms b1 s1 ok1 b2 s2 ok2 b3 s3 show ?thesis by (auto simp: con_navegador_def)
      next
        case ok3: True
        obtain r4 w4 where b4:
          "setup_descarga env d (py_str (nombre_productor c)) (py_str (nombre_residuo c)) w3
             = (r4, w4)"
          by (cases "setup_descarga env d (py_str (nombre_productor c))
                (py_str (nombre_residuo c)) w3") auto
        show ?thesis
        proof (cases r4)
          case (Inl e)
          with assms b1 s1 ok1 b2 s2 ok2 b3 s3 ok3 b4 show ?thesis
            by (auto simp: con_navegador_def llamar_def split: if_splits)
        next
          case (Inr path)
          obtain r5 w5 evs5 where b5: "descargar_documentos env d path 2 w4 = (r5, w5, evs5)"
            by (cases "descargar_documentos env d path 2 w4") auto
          note s5 = descargar_documentos_quit [OF b5]
          from assms b1 s1 ok1 b2 s2 ok2 b3 s3 ok3 b4 Inr b5 s5 show ?thesis
            by (cases r5) (auto simp: con_navegador_def llamar_def split: if_splits)
        qed
      qed
    qed
  qed
qed

lemma cuerpo_registro_llamadas:
  assumes "cuerpo_registro cp env c w = ((r, dv), w', evs)"
  shows "llamadas_a ''driver.quit'' evs
           = (case fst (configure env w) of Inr (Some d) \<Rightarrow> if dv = None then [[]] else []
              | _ \<Rightarrow> [])
         \<and> (case fst (configure env w) of Inr (Some d) \<Rightarrow> dv = None \<or> dv = Some d
              | _ \<Rightarrow> dv = None)
         \<and> set (llamadas_a ''downloadFunctions.setup_descarga'' evs)
             \<subseteq> {[py_str (nombre_productor c), py_str (nombre_residuo c)]}"
proof (cases "configure env w")
  case (Pair rc w1)
  show ?thesis
  proof (cases rc)
    case (Inl e)
    with Pair assms show ?thesis
      by (auto simp: cuerpo_registro_def llamar_def Let_def split: if_splits)
  next
    case (Inr od)
    show ?thesis
    proof (cases od)
      case None
      with Pair Inr assms show ?thesis
        by (auto simp: cuerpo_registro_def llamar_def Let_def split: if_splits)
    next
      case (Some d)
      let ?l = "get_linkMiteco (py_str (regage c)) (py_str (nif_productor c))
                  (py_str (nif_representante c))"
      obtain rd w2 evs2 where b: "con_navegador cp env c ?l d w1 = (rd, w2, evs2)"
        by (cases "con_navegador cp env c ?l d w1") auto
      obtain r2 dv2 where rd: "rd = (r2, dv2)" by (cases rd) auto
      note s = con_navegador_llamadas [OF b [unfolded rd]]
      from Pair Inr Some assms b rd s show ?thesis
        by (auto simp: cuerpo_registro_def llamar_def Let_def split: if_splits)
    qed
  qed
qed

lemma procesar_registro_Inr:
  "campos_registro registro = Inr c \<Longrightarrow>
   \<exists>res w' evs. procesar_registro cp env registro w = (Inr res, w', evs)"
  by (auto simp: procesar_registro_def split: prod.splits sum.splits option.splits)

lemma procesar_registro_llamadas:
  assumes "campos_registro registro = Inr c"
  shows "llamadas_a ''driver.quit'' (snd (snd (procesar_registro cp env registro w)))
           = (case fst (configure env w) of Inr (Some d) \<Rightarrow> [[]] | _ \<Rightarrow> [])
         \<and> set (llamadas_a ''downloadFunctions.setup_descarga''
                  (snd (snd (procesar_registro cp env registro w))))
             \<subseteq> {[py_str (nombre_productor c), py_str (nombre_residuo c)]}"
proof -
  obtain r dv w1 evs1 where b: "cuerpo_registro cp env c w = ((r, dv), w1, evs1)"
    by (cases "cuerpo_registro cp env c w") auto
  note s = cuerpo_registro_llamadas [OF b]
  show ?thesis
  proof (cases dv)
    case None
    with assms b s show ?thesis
      by (cases r)
         (auto simp: procesar_registro_def split: sum.splits option.splits if_splits)
  next
    case (Some d')
    obtain w2 evs2 where c: "cerrar_navegador env d' ''INFO-16''
        [AStr (py_str (nombre_residuo c)), AStr (py_str (nombre_productor c))] ''ERR-11'' w1
        = (w2, evs2)"
      by (cases "cerrar_navegador env d' ''INFO-16''
        [AStr (py_str (nombre_residuo c)), AStr (py_str (nombre_productor c))] ''ERR-11'' w1") auto
    note q = cerrar_navegador_quit [OF c]
    from assms b s Some c q show ?thesis
      by (cases r)
         (auto simp: procesar_registro_def split: sum.splits option.splits if_splits)
  qed
qed

lemmas ejecutar =
  procesar_registro_def campos_registro_def nombre_productor_de_def nombre_residuo_de_def
  cuerpo_registro_def con_navegador_def bucle_reintentos_def reintentar_pos
  autenticar_y_seleccionar_certificado_def intento_autenticacion_def descargar_documentos_def
  lanzar_y_esperar_def cerrar_navegador_def abrir_def llamar_def luego_def emitir_def
  devolver_def entorno_de_def et_abrir_def et_auth_def et_reabrir_def et_autenticar_def
  ids_registro_def replace_char_def get_linkMiteco_def Let_def



subsection \<open>Exceptions\<close>

text \<open>
  The fields are read before the \<^verbatim>\<open>try\<close>: for a record that is no object, or whose
  \<^verbatim>\<open>nombre_productor\<close> is no string, the \<^verbatim>\<open>AttributeError\<close> leaves \<^verbatim>\<open>procesar_registro\<close>, and
  with it the loops of \<^verbatim>\<open>procesar_multiple_regages\<close>.
\<close>

lemma procesar_registro_sin_campos:
  "procesar_registro cp env JNoObj w = (Inl AttributeError, w, [])"
  "map_of kvs ''nombre_productor'' = Some (JNoStr t) \<Longrightarrow>
   procesar_registro cp env (JObj kvs) w = (Inl AttributeError, w, [])"
  by (simp_all add: procesar_registro_def campos_registro_def nombre_productor_de_def)

lemma procesar_registro_except:
  assumes "campos_registro registro = Inr c"
    and "cuerpo_registro cp env c w = ((Inl e, dv), w1, evs1)"
  shows "\<exists>w2 evs2. procesar_registro cp env registro w =
           (Inr None, w2,
            [Log INFO ''INFO-07'' (ids_registro c)] @ evs1
            @ [Log ERROR (cod_except e) (ids_registro c @ [AExn e])] @ evs2)"
  using assms
  by (auto simp: procesar_registro_def split: prod.splits sum.splits option.splits)

lemma descargar_documentos_except:
  assumes "snapshot_folder_state env p wa = (Inr old, wb)"
    and "lanzar_y_esperar env d p old n wb = (Inl e, wc, evsc)"
  shows "\<exists>wd evsd. descargar_documentos env d p n wa =
           (Inr [], wd,
            [Call ''downloadFunctions.snapshot_folder_state'' [p]] @ evsc
            @ [Log ERROR ''ERR-02'' [AExn e]] @ evsd)"
  using assms
  by (auto simp: descargar_documentos_def llamar_def split: prod.splits)

text \<open>
  Claim C6, as amended. For a record whose fields have been read, \<^verbatim>\<open>procesar_registro\<close>
  returns a value and raises nothing, whatever the other modules do. An exception that
  leaves the body of its \<^verbatim>\<open>try\<close> is caught by the \<^verbatim>\<open>except\<close> clauses: the result is
  \<^verbatim>\<open>None\<close> and an \<^verbatim>\<open>ERROR\<close> line is written with the case id, the producer id, the
  representative id and the exception, the line being chosen by the class of the
  exception (\<^verbatim>\<open>TimeoutException\<close>, \<^verbatim>\<open>WebDriverException\<close>, any other). An exception
  raised while the downloads are triggered or awaited does not get that far: it is caught
  inside \<^verbatim>\<open>descargar_documentos\<close>, logged there without the ids, and the result is the
  empty list.
\<close>

theorem excepciones_contenidas:
  assumes "campos_registro registro = Inr c"
  shows "(\<exists>res w' evs. procesar_registro cp env registro w = (Inr res, w', evs))
       \<and> (cuerpo_registro cp env c w = ((Inl e, dv), wx, evsx) \<longrightarrow>
            (\<exists>w2 evs2. procesar_registro cp env registro w =
               (Inr None, w2,
                [Log INFO ''INFO-07'' (ids_registro c)] @ evsx
                @ [Log ERROR (cod_except e) (ids_registro c @ [AExn e])] @ evs2)))
       \<and> ids_registro c = [AStr (py_str (regage c)), AStr (py_str (nif_productor c)),
                             AStr (py_str (nif_representante c))]
       \<and> cod_except (Exn TimeoutException m) = ''ERR-08''
       \<and> cod_except (Exn WebDriverException m) = ''ERR-09''
       \<and> cod_except (Exn OtraException m) = ''ERR-10''
       \<and> (snapshot_folder_state env p wa = (Inr old, wb)
            \<and> lanzar_y_esperar env d p old n wb = (Inl e', wc, evsc) \<longrightarrow>
            (\<exists>wd evsd. descargar_documentos env d p n wa =
               (Inr [], wd,
                [Call ''downloadFunctions.snapshot_folder_state'' [p]] @ evsc
                @ [Log ERROR ''ERR-02'' [AExn e']] @ evsd)))"
  using procesar_registro_Inr [OF assms, of cp env w]
    procesar_registro_except [OF assms, of cp env w e dv wx evsx]
    descargar_documentos_except [of env p wa old wb d n e' wc evsc]
  by (simp add: ids_registro_def)

text \<open>
  Claim C6 as stated has every exception turned into \<^verbatim>\<open>None\<close> and logged with the three
  ids. When the click on the PDF links raises, \<^verbatim>\<open>procesar_registro\<close> returns the empty
  list, and the only \<^verbatim>\<open>ERROR\<close> line carries the exception alone.
\<close>

theorem excepciones_contenidas_contraejemplo:
  "fst (procesar_registro Mains (entorno_de (\<lambda>w. False) (\<lambda>w. False) (\<lambda>w. True)) (JObj []) 0)
     = Inr (Some [])
   \<and> errores (snd (snd (procesar_registro Mains
        (entorno_de (\<lambda>w. False) (\<lambda>w. False) (\<lambda>w. True)) (JObj []) 0)))
     = [Log ERROR ''ERR-02'' [AExn (Exn WebDriverException ''click'')]]"
  by (simp add: ejecutar)

text \<open>
  Claim C6 at work: \<^verbatim>\<open>setup_descarga\<close> raises a \<^verbatim>\<open>TimeoutException\<close>, and the click on the
  PDF links raises inside \<^verbatim>\<open>descargar_documentos\<close>.
\<close>

theorem excepciones_contenidas_witness:
  "(\<exists>res w' evs. procesar_registro Raiz entorno_sin_carpeta
          (JObj [(''regage'', JStr ''R1''), (''nif_productor'', JStr ''B1''),
                 (''nif_representante'', JStr ''X1'')]) 0 = (Inr res, w', evs))
   \<and> (\<exists>evs1 w2 evs2. procesar_registro Raiz entorno_sin_carpeta
          (JObj [(''regage'', JStr ''R1''), (''nif_productor'', JStr ''B1''),
                 (''nif_representante'', JStr ''X1'')]) 0 =
         (Inr None, w2,
          [Log INFO ''INFO-07'' [AStr ''R1'', AStr ''B1'', AStr ''X1'']] @ evs1
          @ [Log ERROR ''ERR-08'' [AStr ''R1'', AStr ''B1'', AStr ''X1'',
                                   AExn (Exn TimeoutException ''setup'')]] @ evs2))
   \<and> (\<exists>wd evsc evsd. descargar_documentos entorno_sin_carpeta 7 ''carpeta'' 2 0 =
         (Inr [], wd,
          [Call ''downloadFunctions.snapshot_folder_state'' [''carpeta'']] @ evsc
          @ [Log ERROR ''ERR-02'' [AExn (Exn WebDriverException ''click'')]] @ evsd))"
proof -
  let ?reg = "JObj [(''regage'', JStr ''R1''), (''nif_productor'', JStr ''B1''),
                 (''nif_representante'', JStr ''X1'')]"
  let ?c = "\<lparr>regage = JStr ''R1'', nif_productor = JStr ''B1'', nif_representante = JStr ''X1'',
        nombre_productor = JStr ''desconocido'', nombre_residuo = JStr ''desconocido''\<rparr>"
  have c: "campos_registro ?reg = Inr ?c"
    by (simp add: campos_registro_def nombre_productor_de_def nombre_residuo_de_def
        replace_char_def)
  have "\<exists>w1 evs1. cuerpo_registro Raiz entorno_sin_carpeta ?c 0
             = ((Inl (Exn TimeoutException ''setup''), Some 7), w1, evs1)"
    by (simp add: ejecutar entorno_sin_carpeta_def)
  then obtain w1 evs1 where b: "cuerpo_registro Raiz entorno_sin_carpeta ?c 0
             = ((Inl (Exn TimeoutException ''setup''), Some 7), w1, evs1)" by blast
  have s: "snapshot_folder_state entorno_sin_carpeta ''carpeta'' 0 = (Inr [], 1)"
    by (simp add: entorno_de_def entorno_sin_carpeta_def)
  have "\<exists>evsc. lanzar_y_esperar entorno_sin_carpeta 7 ''carpeta'' [] 2 1
             = (Inl (Exn WebDriverException ''click''), 2, evsc)"
    by (simp add: ejecutar entorno_sin_carpeta_def)
  then obtain evsc where l: "lanzar_y_esperar entorno_sin_carpeta 7 ''carpeta'' [] 2 1
             = (Inl (Exn WebDriverException ''click''), 2, evsc)" by blast
  note t = excepciones_contenidas [OF c, where cp = Raiz and env = entorno_sin_carpeta
      and w = 0 and e = "Exn TimeoutException ''setup''" and dv = "Some 7" and wx = w1
      and evsx = evs1 and p = "''carpeta''" and wa = 0 and old = "[]" and wb = 1 and d = 7
      and n = 2 and e' = "Exn WebDriverException ''click''" and wc = 2 and evsc = evsc]
  from t have t1: "\<exists>res w' evs. procesar_registro Raiz entorno_sin_carpeta ?reg 0
      = (Inr res, w', evs)" by blast
  from t b have t2: "\<exists>w2 evs2. procesar_registro Raiz entorno_sin_carpeta ?reg 0 =
         (Inr None, w2,
          [Log INFO ''INFO-07'' [AStr ''R1'', AStr ''B1'', AStr ''X1'']] @ evs1
          @ [Log ERROR ''ERR-08'' [AStr ''R1'', AStr ''B1'', AStr ''X1'',
                                   AExn (Exn TimeoutException ''setup'')]] @ evs2)"
    by (simp add: ids_registro_def)
  from t s l have t3: "\<exists>wd evsd. descargar_documentos entorno_sin_carpeta 7 ''carpeta'' 2 0 =
         (Inr [], wd,
          [Call ''downloadFunctions.snapshot_folder_state'' [''carpeta'']] @ evsc
          @ [Log ERROR ''ERR-02'' [AExn (Exn WebDriverException ''click'')]] @ evsd)"
    by blast
  from t1 t2 t3 show ?thesis by blast
qed

subsection \<open>The names of the download folder\<close>

lemma replace_char_uno: "replace_char a [b] s = map (\<lambda>x. if x = a then b else x) s"
  by (induction s) (simp_all add: replace_char_def)

lemma replace_char_nada: "replace_char a [] s = filter (\<lambda>x. x \<noteq> a) s"
  by (induction s) (simp_all add: replace_char_def)

lemma campos_registro_nombres:
  assumes "map_of kvs ''nombre_productor'' = map_option JStr po"
    and "map_of kvs ''nombre_residuo'' = map_option JStr ro"
  shows "\<exists>c. campos_registro (JObj kvs) = Inr c
     \<and> nombre_productor c =
         JStr (map (\<lambda>x. if x = CHR '' '' then CHR ''_'' else x)
                 (case po of None \<Rightarrow> ''desconocido'' | Some s \<Rightarrow> s))
     \<and> nombre_residuo c =
         JStr (filter (\<lambda>x. x \<noteq> CHR ''*'')
                 (map (\<lambda>x. if x = CHR '' '' then CHR ''_'' else x)
                    (case ro of None \<Rightarrow> ''desconocido'' | Some s \<Rightarrow> s)))"
  using assms
  by (cases po; cases ro)
     (simp_all add: campos_registro_def nombre_productor_de_def nombre_residuo_de_def
        replace_char_uno replace_char_nada)

text \<open>
  Claim C7, as amended. For every record that is an object in which each of
  \<^verbatim>\<open>nombre_productor\<close> and \<^verbatim>\<open>nombre_residuo\<close> is absent or a string, the fields are read; an
  absent name is \<^verbatim>\<open>desconocido\<close>; in both names every space becomes an underscore; every
  \<^verbatim>\<open>*\<close> is removed from the waste name only, so the producer name keeps each \<^verbatim>\<open>*\<close> it has;
  and \<^verbatim>\<open>setup_descarga\<close>, which names the download folder, is called with these two names
  and no others.
\<close>

theorem nombres_de_carpeta:
  assumes "map_of kvs ''nombre_productor'' = map_option JStr po"
    and "map_of kvs ''nombre_residuo'' = map_option JStr ro"
  shows "\<exists>c. campos_registro (JObj kvs) = Inr c
     \<and> py_str (nombre_productor c) =
         map (\<lambda>x. if x = CHR '' '' then CHR ''_'' else x)
           (case po of None \<Rightarrow> ''desconocido'' | Some s \<Rightarrow> s)
     \<and> py_str (nombre_residuo c) =
         filter (\<lambda>x. x \<noteq> CHR ''*'')
           (map (\<lambda>x. if x = CHR '' '' then CHR ''_'' else x)
              (case ro of None \<Rightarrow> ''desconocido'' | Some s \<Rightarrow> s))
     \<and> CHR '' '' \<notin> set (py_str (nombre_productor c))
     \<and> CHR '' '' \<notin> set (py_str (nombre_residuo c))
     \<and> CHR ''*'' \<notin> set (py_str (nombre_residuo c))
     \<and> (CHR ''*'' \<in> set (py_str (nombre_productor c))
          \<longleftrightarrow> CHR ''*'' \<in> set (case po of None \<Rightarrow> [] | Some s \<Rightarrow> s))
     \<and> set (llamadas_a ''downloadFunctions.setup_descarga''
               (snd (snd (procesar_registro cp env (JObj kvs) w))))
          \<subseteq> {[py_str (nombre_productor c), py_str (nombre_residuo c)]}"
proof -
  from campos_registro_nombres [OF assms] obtain c where
    c: "campos_registro (JObj kvs) = Inr c"
    and p: "nombre_productor c =
         JStr (map (\<lambda>x. if x = CHR '' '' then CHR ''_'' else x)
                 (case po of None \<Rightarrow> ''desconocido'' | Some s \<Rightarrow> s))"
    and r: "nombre_residuo c =
         JStr (filter (\<lambda>x. x \<noteq> CHR ''*'')
                 (map (\<lambda>x. if x = CHR '' '' then CHR ''_'' else x)
                    (case ro of None \<Rightarrow> ''desconocido'' | Some s \<Rightarrow> s)))"
    by blast
  have a: "CHR '' '' \<notin> set (py_str (nombre_productor c))" using p by auto
  have b: "CHR '' '' \<notin> set (py_str (nombre_residuo c))" using r by auto
  have d: "CHR ''*'' \<notin> set (py_str (nombre_residuo c))" using r by auto
  have e: "CHR ''*'' \<in> set (py_str (nombre_productor c))
          \<longleftrightarrow> CHR ''*'' \<in> set (case po of None \<Rightarrow> [] | Some s \<Rightarrow> s)"
    using p by (cases po) auto
  from procesar_registro_llamadas [OF c, of cp env w]
  have f: "set (llamadas_a ''downloadFunctions.setup_descarga''
               (snd (snd (procesar_registro cp env (JObj kvs) w))))
          \<subseteq> {[py_str (nombre_productor c), py_str (nombre_residuo c)]}" by blast
  from c p r a b d e f show ?thesis by simp
qed

text \<open>
  Claim C7 as stated has \<^verbatim>\<open>*\<close> removed from both names. A producer name with \<^verbatim>\<open>*\<close> reaches
  \<^verbatim>\<open>setup_descarga\<close> with it.
\<close>

theorem nombres_de_carpeta_contraejemplo:
  "llamadas_a ''downloadFunctions.setup_descarga''
     (snd (snd (procesar_registro Mains (entorno_de (\<lambda>w. False) (\<lambda>w. False) (\<lambda>w. False))
        (JObj [(''nombre_productor'', JStr ''ACME* SA''),
               (''nombre_residuo'', JStr ''16 01 04* aceite'')]) 0)))
   = [[''ACME*_SA'', ''16_01_04_aceite'']]"
  by (simp add: ejecutar)

text \<open>Claim C7 at work: a record without producer name.\<close>

theorem nombres_de_carpeta_witness:
  "\<exists>c. campos_registro (JObj [(''nombre_residuo'', JStr ''16 01 04* aceite'')]) = Inr c
     \<and> py_str (nombre_productor c) = ''desconocido''
     \<and> py_str (nombre_residuo c) = ''16_01_04_aceite''"
  using nombres_de_carpeta [of "[(''nombre_residuo'', JStr ''16 01 04* aceite'')]" None
      "Some ''16 01 04* aceite''" Mains "entorno_de (\<lambda>w. False) (\<lambda>w. False) (\<lambda>w. False)" 0]
  by auto

subsection \<open>The archive step\<close>










lemma take1_prefijo: "take 1 (base @ x # xs) = take 1 (base @ [x])"
  by (cases base) simp_all


lemma makedirs_desde_mono:
  "makedirs_desde fs base xs = Inr fs1 \<Longrightarrow> map_of fs q = Some n \<Longrightarrow> map_of fs1 q = Some n"
proof (induction xs arbitrary: fs base)
  case Nil
  then show ?case by simp
next
  case (Cons x xs)
  show ?case
  proof (cases "es_dir fs (base @ [x])")
    case True
    with Cons.prems(1) have "makedirs_desde fs (base @ [x]) xs = Inr fs1" by simp
    from Cons.IH [OF this Cons.prems(2)] show ?thesis .
  next
    case False
    with Cons.prems(1) have
      m: "makedirs_desde (fs @ [(base @ [x], Directorio)]) (base @ [x]) xs = Inr fs1"
      by (simp split: if_splits)
    have "map_of (fs @ [(base @ [x], Directorio)]) q = Some n"
      using Cons.prems(2) by (simp add: map_add_Some_iff)
    from Cons.IH [OF m this] show ?thesis .
  qed
qed

lemma makedirs_desde_largo:
  "makedirs_desde fs base xs = Inr fs1 \<Longrightarrow> length (base @ xs) < length q \<Longrightarrow>
   map_of fs1 q = map_of fs q"
proof (induction xs arbitrary: fs base)
  case Nil
  then show ?case by simp
next
  case (Cons x xs)
  have l: "length ((base @ [x]) @ xs) < length q" using Cons.prems(2) by simp
  show ?case
  proof (cases "es_dir fs (base @ [x])")
    case True
    with Cons.prems(1) have "makedirs_desde fs (base @ [x]) xs = Inr fs1" by simp
    from Cons.IH [OF this l] show ?thesis .
  next
    case False
    with Cons.prems(1) have
      m: "makedirs_desde (fs @ [(base @ [x], Directorio)]) (base @ [x]) xs = Inr fs1"
      by (simp split: if_splits)
    have "q \<noteq> base @ [x]" using Cons.prems(2) by auto
    then have "map_of (fs @ [(base @ [x], Directorio)]) q = map_of fs q"
      by (simp add: map_add_def split: option.splits)
    with Cons.IH [OF m l] show ?thesis by simp
  qed
qed

lemma sin_archivos_hasta_map_of:
  "sin_archivos_hasta k fs \<Longrightarrow> map_of fs p = Some n \<Longrightarrow> take 1 p = [''trash''] \<Longrightarrow>
   length p \<le> k \<Longrightarrow> n = Directorio"
  by (auto simp: sin_archivos_hasta_def list_all_iff dest!: map_of_SomeD)

lemma makedirs_desde_ok:
  "sin_archivos_hasta k fs \<Longrightarrow> length (base @ xs) \<le> k \<Longrightarrow>
   (xs \<noteq> [] \<longrightarrow> take 1 (base @ xs) = [''trash'']) \<Longrightarrow> es_dir fs base \<Longrightarrow>
   \<exists>fs1. makedirs_desde fs base xs = Inr fs1 \<and> sin_archivos_hasta k fs1 \<and> es_dir fs1 (base @ xs)"
proof (induction xs arbitrary: fs base)
  case Nil
  then show ?case by simp
next
  case (Cons x xs)
  from Cons.prems(3) have t: "take 1 (base @ [x]) = [''trash'']"
    using take1_prefijo [of base x xs] by simp
  have t': "xs \<noteq> [] \<longrightarrow> take 1 ((base @ [x]) @ xs) = [''trash'']"
    using Cons.prems(3) by simp
  have l: "length ((base @ [x]) @ xs) \<le> k" using Cons.prems(2) by simp
  show ?case
  proof (cases "es_dir fs (base @ [x])")
    case True
    from Cons.IH [OF Cons.prems(1) l t' True] True show ?thesis by simp
  next
    case False
    have ne: "\<not> existe fs (base @ [x])"
    proof
      assume "existe fs (base @ [x])"
      then obtain n where n: "map_of fs (base @ [x]) = Some n" by (auto simp: existe_def)
      have "length (base @ [x]) \<le> k" using Cons.prems(2) by simp
      from sin_archivos_hasta_map_of [OF Cons.prems(1) n t this] n False
      show False by (simp add: es_dir_def)
    qed
    let ?fs = "fs @ [(base @ [x], Directorio)]"
    have s: "sin_archivos_hasta k ?fs"
      using Cons.prems(1) by (simp add: sin_archivos_hasta_def)
    have d: "es_dir ?fs (base @ [x])"
      using ne by (simp add: es_dir_def existe_def map_add_def)
    from Cons.IH [OF s l t' d] False ne show ?thesis by simp
  qed
qed








lemma trash_dir_de_forma:
  "trash_dir_de cp registro = Inr td \<Longrightarrow> take 1 td = [''trash''] \<and> length td = nivel cp"
  by (cases cp) (auto simp: trash_dir_de_def nivel_def split: sum.splits)



lemma archivar_movido:
  assumes td: "trash_dir_de cp registro = Inr td"
    and s: "sin_archivos_hasta (nivel cp) fs"
    and a: "map_of fs ruta = Some (Archivo contenido)"
    and o: "take 1 ruta \<noteq> [''trash'']"
    and d: "map_of fs (td @ [last ruta]) \<noteq> Some Directorio"
  shows "\<exists>fs2. archivar cp registro ruta fs =
             (Inr fs2, [Log INFO ''INFO-19'' [AStr (last ruta), ARuta (td @ [last ruta])]])
           \<and> map_of fs2 ruta = None
           \<and> map_of fs2 (td @ [last ruta]) = Some (Archivo contenido)
           \<and> es_dir fs2 td"
proof -
  from trash_dir_de_forma [OF td] have t: "take 1 td = [''trash'']"
    and l: "length td = nivel cp" by simp_all
  from makedirs_desde_ok [of "nivel cp" fs "[]" td] s t l
  obtain fs1 where m: "makedirs fs td = Inr fs1" and dd: "es_dir fs1 td"
    by (auto simp: makedirs_def es_dir_def)
  from m have m': "makedirs_desde fs [] td = Inr fs1" by (simp add: makedirs_def)
  have a1: "map_of fs1 ruta = Some (Archivo contenido)"
    by (rule makedirs_desde_mono [OF m' a])
  have d1: "map_of fs1 (td @ [last ruta]) = map_of fs (td @ [last ruta])"
    by (rule makedirs_desde_largo [OF m']) simp
  with d have nd: "\<not> es_dir fs1 (td @ [last ruta])" by (simp add: es_dir_def)
  have ne: "ruta \<noteq> td @ [last ruta]"
  proof
    assume "ruta = td @ [last ruta]"
    then have "take 1 ruta = take 1 (td @ [last ruta])" by simp
    also have "\<dots> = [''trash'']" using t by (cases td) auto
    finally show False using o by simp
  qed
  let ?fs2 = "AList.update (td @ [last ruta]) (Archivo contenido) (AList.delete ruta fs1)"
  have mv: "shutil_move fs1 ruta (td @ [last ruta]) = Inr ?fs2"
    using a1 nd dd by (simp add: shutil_move_def)
  have r1: "map_of ?fs2 ruta = None"
    using ne by (simp add: update_conv' delete_conv')
  have r2: "map_of ?fs2 (td @ [last ruta]) = Some (Archivo contenido)"
    by (simp add: update_conv')
  have "td \<noteq> ruta" using o t by auto
  moreover have "td \<noteq> td @ [last ruta]" by simp
  ultimately have r3: "es_dir ?fs2 td"
    using dd by (simp add: es_dir_def update_conv' delete_conv')
  from td m mv r1 r2 r3 show ?thesis by (simp add: archivar_def Let_def)
qed

lemmas ejecutar_lote =
  procesar_multiple_regages_def listdir_def entradas_def es_dir_def existe_def carpetas_de_def
  es_json_def minuscula_def archivar_def trash_dir_de_def makedirs_def shutil_move_def
  json_de_def suffix_def

lemma campos_registro_productor:
  "campos_registro registro = Inr c \<Longrightarrow> nombre_productor_de registro = Inr (nombre_productor c)"
  by (auto simp: campos_registro_def split: sum.splits)

lemma bucle_archivos_roto:
  assumes "map_of fs (carpeta @ [a]) = Some (Archivo contenido)"
    and "json_load env contenido = Inl e"
    and "int n < max_registros"
  shows "bucle_archivos cp env max_registros carpeta (a # resto) n (w, fs) =
           (case bucle_archivos cp env max_registros carpeta resto n (w, fs) of
              (r, st', evs) \<Rightarrow>
                (r, st',
                 [Log INFO ''INFO-18'' [ANat (n + 1), AInt max_registros, AStr a],
                  Log ERROR ''ERR-14'' [ARuta (carpeta @ [a]), AExn e]] @ evs))"
  using assms by simp

lemma bucle_archivos_paso:
  assumes "map_of fs (carpeta @ [a]) = Some (Archivo contenido)"
    and "json_load env contenido = Inr registro"
    and "int n < max_registros"
    and "procesar_registro cp env registro w = (Inr res, w1, evs1)"
    and "archivar cp registro (carpeta @ [a]) fs = (Inr fs2, evs2)"
  shows "bucle_archivos cp env max_registros carpeta (a # resto) n (w, fs) =
           (case bucle_archivos cp env max_registros carpeta resto (Suc n) (w1, fs2) of
              (r, st', evs3) \<Rightarrow>
                (r, st',
                 [Log INFO ''INFO-18'' [ANat (n + 1), AInt max_registros, AStr a]]
                 @ evs1 @ evs2 @ [Log INFO ''INFO-20'' [], Sleep 10000] @ evs3))"
  using assms by simp

text \<open>
  Claim C9, as amended. When the place in \<^verbatim>\<open>trash\<close> where a record file is to go already
  holds a regular file of that name, the archive step replaces it: afterwards the place
  holds the content of the new file, the file is gone from its original path, and the
  step has written nothing but its usual \<^verbatim>\<open>INFO\<close> line. There is no check for an existing
  file.
\<close>

theorem archivar_sobrescribe:
  assumes "trash_dir_de cp registro = Inr td"
    and "sin_archivos_hasta (nivel cp) fs"
    and "map_of fs ruta = Some (Archivo nuevo)"
    and "take 1 ruta \<noteq> [''trash'']"
    and "map_of fs (td @ [last ruta]) = Some (Archivo viejo)"
  shows "\<exists>fs2. archivar cp registro ruta fs =
             (Inr fs2, [Log INFO ''INFO-19'' [AStr (last ruta), ARuta (td @ [last ruta])]])
           \<and> map_of fs2 (td @ [last ruta]) = Some (Archivo nuevo)
           \<and> map_of fs2 ruta = None"
  using archivar_movido [OF assms(1-4), of ] assms(5) by auto

text \<open>
  Claim C9 as stated says that an archived file is not overwritten silently. A run over a
  record file whose earlier copy is in \<^verbatim>\<open>trash/ACME_SA\<close> replaces that copy, logs no error
  and writes the usual line about the move.
\<close>

theorem archivar_sobrescribe_contraejemplo:
  "map_of (snd (fst (snd (procesar_multiple_regages Mains entorno_bueno 100 (0, fs_archivado)))))
     [''trash'', ''ACME_SA'', ''a.json''] = Some (Archivo ''productor:ACME SA'')
   \<and> errores (snd (snd (procesar_multiple_regages Mains entorno_bueno 100 (0, fs_archivado)))) = []
   \<and> lineas ''INFO-19''
       (snd (snd (procesar_multiple_regages Mains entorno_bueno 100 (0, fs_archivado))))
      = [[AStr ''a.json'', ARuta [''trash'', ''ACME_SA'', ''a.json'']]]"
  by (simp add: ejecutar ejecutar_lote fs_archivado_def entorno_bueno_def)

text \<open>Claim C9 at work, on the archive step alone.\<close>

theorem archivar_sobrescribe_witness:
  "\<exists>fs2. archivar Mains (JObj [(''nombre_productor'', JStr ''ACME SA'')])
            [''output'', ''P'', ''a.json''] fs_archivado =
             (Inr fs2, [Log INFO ''INFO-19''
                          [AStr ''a.json'', ARuta [''trash'', ''ACME_SA'', ''a.json'']]])
           \<and> map_of fs2 [''trash'', ''ACME_SA'', ''a.json''] = Some (Archivo ''productor:ACME SA'')
           \<and> map_of fs2 [''output'', ''P'', ''a.json''] = None"
  using archivar_sobrescribe [of Mains "JObj [(''nombre_productor'', JStr ''ACME SA'')]"
      "[''trash'', ''ACME_SA'']" fs_archivado "[''output'', ''P'', ''a.json'']"
      "''productor:ACME SA''" "''productor:ACME SA, antes''"]
  by (simp add: trash_dir_de_def nombre_productor_de_def replace_char_def nivel_def
      sin_archivos_hasta_def fs_archivado_def)

text \<open>
  Claim C4, as amended. Take a record file that the loop reaches below the limit and
  that parses to an object whose \<^verbatim>\<open>nombre_productor\<close> and \<^verbatim>\<open>nombre_residuo\<close> are each absent
  or a string, the producer name (spaces replaced, \<^verbatim>\<open>desconocido\<close> when absent) being a
  single path component. Whatever the processing of the record returns, the file is then
  moved: it is gone from its original path, its content is at \<^verbatim>\<open>trash/<producer>/<name>\<close>
  in \<^verbatim>\<open>src/src/mains/RegageMetalls.py\<close> and at \<^verbatim>\<open>trash/<name>\<close> in
  \<^verbatim>\<open>src/RegageMetalls.py\<close>, the directory having been created when absent, and the loop
  goes on with the next file. This needs that no regular file is in the way of the
  directories and that the destination is not a directory. A file that does not parse is
  logged and left where it is, and the loop goes on with the same file system.
\<close>

theorem archivo_archivado:
  "(map_of fs (carpeta @ [a]) = Some (Archivo contenido)
      \<and> json_load env contenido = Inr (JObj kvs)
      \<and> map_of kvs ''nombre_productor'' = map_option JStr po
      \<and> map_of kvs ''nombre_residuo'' = map_option JStr ro
      \<and> productor = map (\<lambda>x. if x = CHR '' '' then CHR ''_'' else x)
                       (case po of None \<Rightarrow> ''desconocido'' | Some s \<Rightarrow> s)
      \<and> componente productor
      \<and> td = (case cp of Raiz \<Rightarrow> [''trash''] | Mains \<Rightarrow> [''trash'', productor])
      \<and> take 1 carpeta = [''output'']
      \<and> sin_archivos_hasta (nivel cp) fs
      \<and> map_of fs (td @ [a]) \<noteq> Some Directorio
      \<and> int n < max_registros
    \<longrightarrow> (\<exists>res w1 evs1 fs2.
          procesar_registro cp env (JObj kvs) w = (Inr res, w1, evs1)
          \<and> archivar cp (JObj kvs) (carpeta @ [a]) fs =
              (Inr fs2, [Log INFO ''INFO-19'' [AStr a, ARuta (td @ [a])]])
          \<and> map_of fs2 (carpeta @ [a]) = None
          \<and> map_of fs2 (td @ [a]) = Some (Archivo contenido)
          \<and> es_dir fs2 td
          \<and> bucle_archivos cp env max_registros carpeta (a # resto) n (w, fs) =
              (case bucle_archivos cp env max_registros carpeta resto (Suc n) (w1, fs2) of
                 (r, st', evs3) \<Rightarrow>
                   (r, st',
                    [Log INFO ''INFO-18'' [ANat (n + 1), AInt max_registros, AStr a]]
                    @ evs1
                    @ [Log INFO ''INFO-19'' [AStr a, ARuta (td @ [a])]]
                    @ [Log INFO ''INFO-20'' [], Sleep 10000] @ evs3))))
   \<and> (map_of fs' (carpeta' @ [a']) = Some (Archivo contenido')
      \<and> json_load env' contenido' = Inl e
      \<and> int n' < max_registros'
    \<longrightarrow> bucle_archivos cp' env' max_registros' carpeta' (a' # resto') n' (w', fs') =
          (case bucle_archivos cp' env' max_registros' carpeta' resto' n' (w', fs') of
             (r, st', evs) \<Rightarrow>
               (r, st',
                [Log INFO ''INFO-18'' [ANat (n' + 1), AInt max_registros', AStr a'],
                 Log ERROR ''ERR-14'' [ARuta (carpeta' @ [a']), AExn e]] @ evs)))"
proof (intro conjI impI)
  assume h: "map_of fs (carpeta @ [a]) = Some (Archivo contenido)
      \<and> json_load env contenido = Inr (JObj kvs)
      \<and> map_of kvs ''nombre_productor'' = map_option JStr po
      \<and> map_of kvs ''nombre_residuo'' = map_option JStr ro
      \<and> productor = map (\<lambda>x. if x = CHR '' '' then CHR ''_'' else x)
                       (case po of None \<Rightarrow> ''desconocido'' | Some s \<Rightarrow> s)
      \<and> componente productor
      \<and> td = (case cp of Raiz \<Rightarrow> [''trash''] | Mains \<Rightarrow> [''trash'', productor])
      \<and> take 1 carpeta = [''output'']
      \<and> sin_archivos_hasta (nivel cp) fs
      \<and> map_of fs (td @ [a]) \<noteq> Some Directorio
      \<and> int n < max_registros"
  from h campos_registro_nombres [of kvs po ro] obtain c where
    c: "campos_registro (JObj kvs) = Inr c" and np: "nombre_productor c = JStr productor"
    by auto
  from procesar_registro_Inr [OF c, of cp env w] obtain res w1 evs1 where
    p: "procesar_registro cp env (JObj kvs) w = (Inr res, w1, evs1)" by blast
  from campos_registro_productor [OF c] np h have
    td: "trash_dir_de cp (JObj kvs) = Inr td"
    by (cases cp) (simp_all add: trash_dir_de_def)
  have o: "take 1 (carpeta @ [a]) \<noteq> [''trash'']"
    using h by (cases carpeta) auto
  from h have s: "sin_archivos_hasta (nivel cp) fs"
    and f: "map_of fs (carpeta @ [a]) = Some (Archivo contenido)"
    and d0: "map_of fs (td @ [a]) \<noteq> Some Directorio"
    and j: "json_load env contenido = Inr (JObj kvs)"
    and n: "int n < max_registros" by blast+
  from d0 have d: "map_of fs (td @ [last (carpeta @ [a])]) \<noteq> Some Directorio" by simp
  from archivar_movido [OF td s f o d] obtain fs2 where
    ar: "archivar cp (JObj kvs) (carpeta @ [a]) fs =
             (Inr fs2, [Log INFO ''INFO-19'' [AStr a, ARuta (td @ [a])]])"
    and r: "map_of fs2 (carpeta @ [a]) = None"
           "map_of fs2 (td @ [a]) = Some (Archivo contenido)" "es_dir fs2 td"
    by auto
  from bucle_archivos_paso [OF f j n p ar, of resto] p ar r
  show "\<exists>res w1 evs1 fs2.
          procesar_registro cp env (JObj kvs) w = (Inr res, w1, evs1)
          \<and> archivar cp (JObj kvs) (carpeta @ [a]) fs =
              (Inr fs2, [Log INFO ''INFO-19'' [AStr a, ARuta (td @ [a])]])
          \<and> map_of fs2 (carpeta @ [a]) = None
          \<and> map_of fs2 (td @ [a]) = Some (Archivo contenido)
          \<and> es_dir fs2 td
          \<and> bucle_archivos cp env max_registros carpeta (a # resto) n (w, fs) =
              (case bucle_archivos cp env max_registros carpeta resto (Suc n) (w1, fs2) of
                 (r, st', evs3) \<Rightarrow>
                   (r, st',
                    [Log INFO ''INFO-18'' [ANat (n + 1), AInt max_registros, AStr a]]
                    @ evs1
                    @ [Log INFO ''INFO-19'' [AStr a, ARuta (td @ [a])]]
                    @ [Log INFO ''INFO-20'' [], Sleep 10000] @ evs3))"
    by auto
next
  assume "map_of fs' (carpeta' @ [a']) = Some (Archivo contenido')
      \<and> json_load env' contenido' = Inl e
      \<and> int n' < max_registros'"
  then show "bucle_archivos cp' env' max_registros' carpeta' (a' # resto') n' (w', fs') =
          (case bucle_archivos cp' env' max_registros' carpeta' resto' n' (w', fs') of
             (r, st', evs) \<Rightarrow>
               (r, st',
                [Log INFO ''INFO-18'' [ANat (n' + 1), AInt max_registros', AStr a'],
                 Log ERROR ''ERR-14'' [ARuta (carpeta' @ [a']), AExn e]] @ evs))"
    using bucle_archivos_roto [of fs' carpeta' a' contenido' env' e n' max_registros'] by blast
qed

text \<open>
  Claim C4 as stated has every attempted file moved into a directory named after its
  producer. A malformed file is attempted (its \<^verbatim>\<open>INFO-18\<close> line is written) and the file
  system is unchanged after the run; and \<^verbatim>\<open>src/RegageMetalls.py\<close> moves a file of producer
  \<^verbatim>\<open>ACME SA\<close> to \<^verbatim>\<open>trash/a.json\<close>, leaving \<^verbatim>\<open>trash/ACME_SA\<close> as it was.
\<close>

theorem archivo_archivado_contraejemplo:
  "snd (fst (snd (procesar_multiple_regages Mains entorno_bueno 100 (0, fs_roto)))) = fs_roto
   \<and> lineas ''INFO-18'' (snd (snd (procesar_multiple_regages Mains entorno_bueno 100 (0, fs_roto))))
      = [[ANat 1, AInt 100, AStr ''roto.json'']]
   \<and> map_of (snd (fst (snd (procesar_multiple_regages Raiz entorno_bueno 100 (0, fs_archivado)))))
       [''trash'', ''a.json''] = Some (Archivo ''productor:ACME SA'')
   \<and> map_of (snd (fst (snd (procesar_multiple_regages Raiz entorno_bueno 100 (0, fs_archivado)))))
       [''trash'', ''ACME_SA'', ''a.json''] = Some (Archivo ''productor:ACME SA, antes'')"
  by (simp add: ejecutar ejecutar_lote fs_roto_def fs_archivado_def entorno_bueno_def)

text \<open>Claim C4 at work: a file of producer \<^verbatim>\<open>ACME SA\<close>, and a malformed file.\<close>

theorem archivo_archivado_witness:
  "(\<exists>res w1 evs1 fs2.
      procesar_registro Mains entorno_bueno (JObj [(''nombre_productor'', JStr ''ACME SA'')]) 0
        = (Inr res, w1, evs1)
      \<and> archivar Mains (JObj [(''nombre_productor'', JStr ''ACME SA'')])
            [''output'', ''P'', ''a.json''] fs_ejemplo =
          (Inr fs2, [Log INFO ''INFO-19''
                       [AStr ''a.json'', ARuta [''trash'', ''ACME_SA'', ''a.json'']]])
      \<and> map_of fs2 [''output'', ''P'', ''a.json''] = None
      \<and> map_of fs2 [''trash'', ''ACME_SA'', ''a.json''] = Some (Archivo ''productor:ACME SA'')
      \<and> es_dir fs2 [''trash'', ''ACME_SA''])
   \<and> bucle_archivos Mains entorno_bueno 100 [''output'', ''P''] [''roto.json''] 0 (0, fs_roto) =
       (Inr (Sigue, 0), (0, fs_roto),
        [Log INFO ''INFO-18'' [ANat 1, AInt 100, AStr ''roto.json''],
         Log ERROR ''ERR-14'' [ARuta [''output'', ''P'', ''roto.json''],
                               AExn (Exn OtraException ''JSONDecodeError'')]])"
proof -
  let ?kvs = "[(''nombre_productor'', JStr ''ACME SA'')]"
  have a: "map_of fs_ejemplo ([''output'', ''P''] @ [''a.json'']) = Some (Archivo ''productor:ACME SA'')
      \<and> json_load entorno_bueno ''productor:ACME SA'' = Inr (JObj ?kvs)
      \<and> map_of ?kvs ''nombre_productor'' = map_option JStr (Some ''ACME SA'')
      \<and> map_of ?kvs ''nombre_residuo'' = map_option JStr None
      \<and> ''ACME_SA'' = map (\<lambda>x. if x = CHR '' '' then CHR ''_'' else x)
                       (case Some ''ACME SA'' of None \<Rightarrow> ''desconocido'' | Some s \<Rightarrow> s)
      \<and> componente ''ACME_SA''
      \<and> [''trash'', ''ACME_SA'']
          = (case Mains of Raiz \<Rightarrow> [''trash''] | Mains \<Rightarrow> [''trash'', ''ACME_SA''])
      \<and> take 1 [''output'', ''P''] = [''output'']
      \<and> sin_archivos_hasta (nivel Mains) fs_ejemplo
      \<and> map_of fs_ejemplo ([''trash'', ''ACME_SA''] @ [''a.json'']) \<noteq> Some Directorio
      \<and> int 0 < 100"
    by (simp add: fs_ejemplo_def entorno_bueno_def entorno_de_def json_de_def componente_def
        sin_archivos_hasta_def nivel_def)
  have b: "map_of fs_roto ([''output'', ''P''] @ [''roto.json'']) = Some (Archivo ''roto'')
      \<and> json_load entorno_bueno ''roto'' = Inl (Exn OtraException ''JSONDecodeError'')
      \<and> int 0 < 100"
    by (simp add: fs_roto_def entorno_bueno_def entorno_de_def json_de_def)
  from archivo_archivado [where w = 0 and resto = "[]", THEN conjunct1, THEN mp, OF a]
  obtain res w1 evs1 fs2 where
    p: "procesar_registro Mains entorno_bueno (JObj ?kvs) 0 = (Inr res, w1, evs1)"
    and q: "archivar Mains (JObj ?kvs) ([''output'', ''P''] @ [''a.json'']) fs_ejemplo =
          (Inr fs2, [Log INFO ''INFO-19''
                       [AStr ''a.json'', ARuta ([''trash'', ''ACME_SA''] @ [''a.json''])]])"
    and r: "map_of fs2 ([''output'', ''P''] @ [''a.json'']) = None"
      "map_of fs2 ([''trash'', ''ACME_SA''] @ [''a.json'']) = Some (Archivo ''productor:ACME SA'')"
      "es_dir fs2 [''trash'', ''ACME_SA'']"
    by blast
  from p q r
  have t1: "\<exists>res w1 evs1 fs2.
      procesar_registro Mains entorno_bueno (JObj ?kvs) 0 = (Inr res, w1, evs1)
      \<and> archivar Mains (JObj ?kvs) [''output'', ''P'', ''a.json''] fs_ejemplo =
          (Inr fs2, [Log INFO ''INFO-19''
                       [AStr ''a.json'', ARuta [''trash'', ''ACME_SA'', ''a.json'']]])
      \<and> map_of fs2 [''output'', ''P'', ''a.json''] = None
      \<and> map_of fs2 [''trash'', ''ACME_SA'', ''a.json''] = Some (Archivo ''productor:ACME SA'')
      \<and> es_dir fs2 [''trash'', ''ACME_SA'']"
    by auto
  from archivo_archivado [where cp' = Mains and resto' = "[]" and w' = 0,
      THEN conjunct2, THEN mp, OF b]
  have t2: "bucle_archivos Mains entorno_bueno 100 [''output'', ''P''] [''roto.json''] 0
              (0, fs_roto) =
       (Inr (Sigue, 0), (0, fs_roto),
        [Log INFO ''INFO-18'' [ANat 1, AInt 100, AStr ''roto.json''],
         Log ERROR ''ERR-14'' [ARuta [''output'', ''P'', ''roto.json''],
                               AExn (Exn OtraException ''JSONDecodeError'')]])"
    by simp
  from t1 t2 show ?thesis by blast
qed

subsection \<open>The loops over folders and files\<close>

lemma lineas_append [simp]: "lineas cod (xs @ ys) = lineas cod xs @ lineas cod ys"
  by (induction cod xs rule: lineas.induct) simp_all



















lemma avance_mono: "n \<le> snd (avance P m n ps)"
proof (induction ps arbitrary: n)
  case Nil
  then show ?case by simp
next
  case (Cons p ps)
  from Cons [of "Suc n"] Cons [of n] show ?case by (auto simp: Suc_leD)
qed
















end
